theory Spec2Isabelle
  imports Main "HOL-Library.Sublist"
begin

section \<open>Strings and paths\<close>

text \<open>
  The repository holds two implementations of the same tool: a Go one
  (\<^verbatim>\<open>internal/config\<close>, \<^verbatim>\<open>internal/detector\<close>, \<^verbatim>\<open>internal/builder\<close>) and a
  JavaScript one (\<^verbatim>\<open>detector.js\<close>, \<^verbatim>\<open>builder.js\<close>). Both are embedded below, each
  function under the name it has in the source; where the two implementations
  use the same name the JavaScript one carries the suffix \<open>_js\<close>.
\<close>

subsection \<open>The string functions the sources call\<close>

definition strings_HasPrefix :: "string \<Rightarrow> string \<Rightarrow> bool" where
  "strings_HasPrefix s pre = prefix pre s"

definition strings_HasSuffix :: "string \<Rightarrow> string \<Rightarrow> bool" where
  "strings_HasSuffix s suf = prefix (rev suf) (rev s)"

fun strings_Contains :: "string \<Rightarrow> string \<Rightarrow> bool" where
  "strings_Contains [] sub = (sub = [])"
| "strings_Contains (c # cs) sub = (prefix sub (c # cs) \<or> strings_Contains cs sub)"

text \<open>\<^verbatim>\<open>strings.Join\<close> / \<^verbatim>\<open>Array.prototype.join\<close>: the elements with a separator between them.\<close>

fun join_with :: "string \<Rightarrow> string list \<Rightarrow> string" where
  "join_with sep [] = []"
| "join_with sep [x] = x"
| "join_with sep (x # y # ys) = x @ sep @ join_with sep (y # ys)"

subsection \<open>Paths\<close>

text \<open>
  A directory or file is an absolute path in clean form (what \<^verbatim>\<open>os.Getwd\<close>,
  \<^verbatim>\<open>filepath.Dir\<close>, \<^verbatim>\<open>filepath.Join\<close> and \<^verbatim>\<open>path.resolve\<close> return on a Unix system),
  represented by the list of its segments below the root: \<open>[]\<close> is \<^verbatim>\<open>/\<close> and
  \<open>[''repo'', ''app1'']\<close> is \<^verbatim>\<open>/repo/app1\<close>. \<open>render\<close> gives the text of such a path.
\<close>

type_synonym fpath = "string list"

definition render :: "fpath \<Rightarrow> string" where
  "render p = (if p = [] then ''/'' else concat (map (\<lambda>s. ''/'' @ s) p))"

text \<open>\<^verbatim>\<open>filepath.Dir\<close>, \<^verbatim>\<open>filepath.Base\<close>, \<^verbatim>\<open>filepath.Join(dir, name)\<close>; the parent of the root is the root.\<close>

definition filepath_Dir :: "fpath \<Rightarrow> fpath" where
  "filepath_Dir p = butlast p"

definition filepath_Base :: "fpath \<Rightarrow> string" where
  "filepath_Base p = (if p = [] then ''/'' else last p)"

definition filepath_Join :: "fpath \<Rightarrow> string \<Rightarrow> fpath" where
  "filepath_Join p name = p @ [name]"

text \<open>
  \<^verbatim>\<open>filepath.Rel(base, targ)\<close> on two clean absolute paths: the common leading segments
  are dropped, every segment left of the base becomes \<^verbatim>\<open>..\<close>, the segments left of
  the target follow, and two equal paths give \<^verbatim>\<open>.\<close>. On such paths \<^verbatim>\<open>Rel\<close> returns
  no error.
\<close>

fun rel_segments :: "fpath \<Rightarrow> fpath \<Rightarrow> string list" where
  "rel_segments (b # bs) (t # ts) =
     (if b = t then rel_segments bs ts
      else replicate (length (b # bs)) ''..'' @ (t # ts))"
| "rel_segments bs ts = replicate (length bs) ''..'' @ ts"

definition filepath_Rel :: "fpath \<Rightarrow> fpath \<Rightarrow> string" where
  "filepath_Rel base targ =
     (let r = rel_segments base targ in if r = [] then ''.'' else join_with ''/'' r)"

definition filepath_IsAbs :: "string \<Rightarrow> bool" where
  "filepath_IsAbs s = strings_HasPrefix s ''/''"

subsection \<open>Errors\<close>

text \<open>
  Both implementations signal failure with an untyped error that carries a message
  (\<^verbatim>\<open>fmt.Errorf\<close>, \<^verbatim>\<open>new Error\<close>). The model tags every place that raises one with the
  kind the specification gives it, and keeps the message.
\<close>

datatype kind =
  NotInProjectError | DescriptorNotFoundError | ParseError
  | UnconfiguredModuleError | InvalidProfileError | BuildExecutionError

datatype error = Err kind string

text \<open>\<^verbatim>\<open>fmt.Errorf("prefix: %w", err)\<close>\<close>

fun wrap :: "string \<Rightarrow> error \<Rightarrow> error" where
  "wrap pre (Err k msg) = Err k (pre @ msg)"

fun kind_of :: "error \<Rightarrow> kind" where
  "kind_of (Err k msg) = k"

section \<open>The Go implementation\<close>

subsection \<open>\<^verbatim>\<open>internal/config/config.go\<close>\<close>

text \<open>
  The fields of \<^verbatim>\<open>ProjectConfig\<close> that the functions below read. \<open>BasePath\<close> is taken
  in clean absolute form. \<open>ConfigRepoRoot\<close> is the field \<^verbatim>\<open>Config.RepoRoot\<close> that
  \<^verbatim>\<open>builder.go\<close> reads; the declaration of \<^verbatim>\<open>ProjectConfig\<close> in the sources does
  not have it, so it is carried here, \<open>None\<close> standing for the empty string.
\<close>

record ProjectConfig =
  BasePath :: fpath
  DefaultProfile :: string
  AvailableProfiles :: "string list"
  ProfileOverrides :: "string \<rightharpoonup> string list"
  SkipTests :: bool
  Modules :: "string \<rightharpoonup> string"
  ConfigRepoRoot :: "fpath option"

record RestartPattern =
  Match :: string
  Reason :: string
  Severity :: string

record RestartRules =
  GlobalModule :: bool
  Patterns :: "RestartPattern list"

text \<open>\<open>Projects\<close> lists the entries of the Go map in the order the \<^verbatim>\<open>range\<close> loop visits them.\<close>

record Config =
  Projects :: "(string \<times> ProjectConfig) list"
  RestartRules :: "RestartRules option"

text \<open>Returns (path, isGlobal, exists).\<close>

definition GetModuleDeploymentPath :: "ProjectConfig \<Rightarrow> string \<Rightarrow> string \<times> bool \<times> bool" where
  "GetModuleDeploymentPath p moduleName =
     (case Modules p moduleName of
        None \<Rightarrow> ('''', False, False)
      | Some path \<Rightarrow> if path = '''' then ('''', False, True) else (path, True, True))"

definition GetProfileArgs :: "ProjectConfig \<Rightarrow> string \<Rightarrow> string list" where
  "GetProfileArgs p profile =
     (if profile = '''' then
        (case ProfileOverrides p '''' of
           Some overrides \<Rightarrow> map (\<lambda>prof. ''-P'' @ prof) overrides
         | None \<Rightarrow> if DefaultProfile p \<noteq> '''' then [''-P'' @ DefaultProfile p] else [])
      else
        (case ProfileOverrides p profile of
           Some overrides \<Rightarrow> map (\<lambda>prof. ''-P'' @ prof) overrides
         | None \<Rightarrow> [''-P'' @ profile]))"

subsection \<open>\<^verbatim>\<open>internal/detector/detector.go\<close>\<close>

record PomXML =
  ArtifactId :: string
  PomPackaging :: string

record ProjectInfo =
  Name :: string
  Config :: ProjectConfig
  ModuleName :: string
  ModulePath :: fpath
  RepoRoot :: fpath
  Packaging :: string
  DeploymentPath :: string
  IsGlobalModule :: bool

text \<open>
  What the detector sees of the file system: \<open>Stat f\<close> holds when \<^verbatim>\<open>os.Stat(f)\<close> returns no
  error, and \<open>Unmarshal f\<close> is the descriptor that \<^verbatim>\<open>os.ReadFile\<close> and \<^verbatim>\<open>xml.Unmarshal\<close>
  produce from \<open>f\<close>, \<open>None\<close> when either fails. An element that the file does not have
  is the empty string in \<open>PomXML\<close>.
\<close>

record go_fs =
  Stat :: "fpath \<Rightarrow> bool"
  Unmarshal :: "fpath \<Rightarrow> PomXML option"

text \<open>
  \<^verbatim>\<open>hasParentPom\<close> first returns false for the empty string; a base path is absolute and
  so never empty.
\<close>

definition hasParentPom :: "go_fs \<Rightarrow> fpath \<Rightarrow> bool" where
  "hasParentPom fs path = Stat fs (filepath_Join path ''pom.xml'')"

text \<open>
  The \<^verbatim>\<open>for\<close> loop of \<^verbatim>\<open>findPomXML\<close>: \<open>Some\<close> is the \<^verbatim>\<open>return\<close> inside the loop,
  \<open>None\<close> the \<^verbatim>\<open>break\<close> at the root.
\<close>

function findPomXML_loop :: "go_fs \<Rightarrow> fpath \<Rightarrow> fpath option" where
  "findPomXML_loop fs currentDir =
     (let pomPath = filepath_Join currentDir ''pom.xml'' in
      if Stat fs pomPath then Some pomPath
      else
        let parentDir = filepath_Dir currentDir in
        if parentDir = currentDir then None
        else findPomXML_loop fs parentDir)"
  by pat_completeness auto
termination
proof (relation "measure (\<lambda>(fs, d). length d)")
  show "wf (measure (\<lambda>(fs, d). length d))"
    by simp
next
  fix fs :: go_fs and currentDir pomPath parentDir :: fpath
  assume "parentDir = filepath_Dir currentDir" and "parentDir \<noteq> currentDir"
  then have "currentDir \<noteq> []"
    by (auto simp: filepath_Dir_def)
  then show "((fs, parentDir), (fs, currentDir)) \<in> measure (\<lambda>(fs, d). length d)"
    using \<open>parentDir = filepath_Dir currentDir\<close> by (simp add: filepath_Dir_def)
qed

definition findPomXML :: "go_fs \<Rightarrow> fpath \<Rightarrow> error + fpath" where
  "findPomXML fs startDir =
     (case findPomXML_loop fs startDir of
        Some pomPath \<Rightarrow> Inr pomPath
      | None \<Rightarrow>
          Inl (Err DescriptorNotFoundError
                 (''pom.xml not found in directory tree starting from '' @ render startDir)))"

text \<open>
  \<^verbatim>\<open>parsePomXML\<close> fails with \<^verbatim>\<open>failed to read pom.xml\<close> or \<^verbatim>\<open>failed to parse XML\<close>,
  followed by the underlying cause; the model has one message for both.
\<close>

definition parsePomXML :: "go_fs \<Rightarrow> fpath \<Rightarrow> error + PomXML" where
  "parsePomXML fs pomPath =
     (case Unmarshal fs pomPath of
        None \<Rightarrow> Inl (Err ParseError ''failed to read or parse pom.xml'')
      | Some pom \<Rightarrow> Inr pom)"

text \<open>The message of the error for a module that the project's table does not have.\<close>

definition unconfigured_message :: "string \<Rightarrow> string \<Rightarrow> string" where
  "unconfigured_message moduleName projectName =
     ''module '' @ [CHR 0x27] @ moduleName @ [CHR 0x27] @ '' is not configured in config.yaml''
     @ [CHR 0x0A, CHR 0x0A]
     @ ''Please add it to the '' @ [CHR 0x27] @ ''modules'' @ [CHR 0x27]
     @ '' section for project '' @ [CHR 0x27] @ projectName @ [CHR 0x27] @ '':'' @ [CHR 0x0A]
     @ ''  modules:'' @ [CHR 0x0A]
     @ ''    '' @ moduleName @ '': '' @ [CHR 0x22, CHR 0x22] @ ''  # for normal deployment'' @ [CHR 0x0A]
     @ ''    # or'' @ [CHR 0x0A]
     @ ''    '' @ moduleName @ '': '' @ [CHR 0x22] @ ''modules/path/main'' @ [CHR 0x22]
     @ ''  # for global module''"

definition detectModule :: "go_fs \<Rightarrow> ProjectInfo \<Rightarrow> fpath \<Rightarrow> error + ProjectInfo" where
  "detectModule fs p cwd =
     (case findPomXML fs cwd of
        Inl e \<Rightarrow> Inl (wrap ''failed to find pom.xml: '' e)
      | Inr pomPath \<Rightarrow>
          (case parsePomXML fs pomPath of
             Inl e \<Rightarrow> Inl (wrap ''failed to parse pom.xml: '' e)
           | Inr pom \<Rightarrow>
               let p1 = p\<lparr>ModulePath := filepath_Dir pomPath\<rparr>;
                   p2 = p1\<lparr>ModuleName := filepath_Base (ModulePath p1)\<rparr>;
                   p3 = p2\<lparr>Packaging := PomPackaging pom\<rparr>;
                   p4 = (if Packaging p3 = '''' then p3\<lparr>Packaging := ''jar''\<rparr> else p3);
                   p5 = (if hasParentPom fs (BasePath (Config p4))
                         then p4\<lparr>RepoRoot := BasePath (Config p4)\<rparr>
                         else p4\<lparr>RepoRoot := ModulePath p4\<rparr>)
               in (case GetModuleDeploymentPath (Config p5) (ModuleName p5) of
                     (deploymentPath, isGlobal, exists) \<Rightarrow>
                       if \<not> exists
                       then Inl (Err UnconfiguredModuleError
                                   (unconfigured_message (ModuleName p5) (Name p5)))
                       else Inr (p5\<lparr>DeploymentPath := deploymentPath,
                                     IsGlobalModule := isGlobal\<rparr>))))"

text \<open>
  The test in the loop of \<^verbatim>\<open>DetectProject\<close> that decides whether \<open>cwd\<close> lies within a
  project's base path. \<^verbatim>\<open>filepath.Rel\<close> returns no error on two absolute paths, so the
  \<^verbatim>\<open>continue\<close> for that error is never taken.
\<close>

definition withinBasePath :: "fpath \<Rightarrow> fpath \<Rightarrow> bool" where
  "withinBasePath basePath cwd =
     (let rel = filepath_Rel basePath cwd in
      \<not> strings_HasPrefix rel ''..'' \<and> \<not> filepath_IsAbs rel)"

text \<open>
  The loop over \<^verbatim>\<open>cfg.Projects\<close>. The fields of the fresh \<^verbatim>\<open>ProjectInfo\<close> other than
  \<open>Name\<close> and \<open>Config\<close> hold Go's zero values until \<open>detectModule\<close> sets them.
\<close>

fun DetectProject_loop :: "go_fs \<Rightarrow> fpath \<Rightarrow> (string \<times> ProjectConfig) list \<Rightarrow> error + ProjectInfo" where
  "DetectProject_loop fs cwd [] =
     Inl (Err NotInProjectError ''current directory is not part of any configured project'')"
| "DetectProject_loop fs cwd ((projectName, projectConfig) # rest) =
     (if withinBasePath (BasePath projectConfig) cwd then
        (let info = \<lparr>Name = projectName, Config = projectConfig, ModuleName = '''',
                      ModulePath = [], RepoRoot = [], Packaging = '''',
                      DeploymentPath = '''', IsGlobalModule = False\<rparr>
         in case detectModule fs info cwd of
              Inl e \<Rightarrow> Inl (wrap ''failed to detect module: '' e)
            | Inr info' \<Rightarrow> Inr info')
      else DetectProject_loop fs cwd rest)"

definition DetectProject :: "go_fs \<Rightarrow> fpath \<Rightarrow> Config \<Rightarrow> error + ProjectInfo" where
  "DetectProject fs cwd c = DetectProject_loop fs cwd (Projects c)"

text \<open>
  In \<^verbatim>\<open>GetBuildCommand\<close> the early \<^verbatim>\<open>return args\<close> for an error of \<^verbatim>\<open>filepath.Rel\<close> is
  never taken, since \<open>RepoRoot\<close> and \<open>ModulePath\<close> are absolute.
\<close>

definition GetBuildCommand :: "ProjectInfo \<Rightarrow> string \<Rightarrow> string list" where
  "GetBuildCommand p profile =
     (let args0 = [''mvn'', ''clean''];
          args1 = (if RepoRoot p \<noteq> ModulePath p
                   then args0 @ [''package'', ''-pl'', filepath_Rel (RepoRoot p) (ModulePath p), ''-am'']
                   else if Packaging p = ''jar'' then args0 @ [''install'']
                   else args0 @ [''package'']);
          args2 = args1 @ GetProfileArgs (Config p) profile
      in if SkipTests (Config p) then args2 @ [''-DskipTests''] else args2)"

subsection \<open>\<^verbatim>\<open>internal/builder/builder.go\<close>\<close>

record Builder =
  cfg :: Config
  projectInfo :: ProjectInfo

text \<open>
  What the builder sees of its environment: \<open>confirm\<close> is the answer that
  \<^verbatim>\<open>b.confirm\<close> reads from the terminal, \<open>cmd_Run dir args\<close> what running the
  command \<open>args\<close> in the directory \<open>dir\<close> returns: \<open>None\<close> for success, the message of
  the error otherwise.
\<close>

record go_os =
  confirm :: bool
  cmd_Run :: "fpath \<Rightarrow> string list \<Rightarrow> string option"

definition isValidProfile :: "Builder \<Rightarrow> string \<Rightarrow> bool" where
  "isValidProfile b profile =
     (if length (AvailableProfiles (Config (projectInfo b))) = 0 then True
      else profile \<in> set (AvailableProfiles (Config (projectInfo b))))"

text \<open>
  \<^verbatim>\<open>relPath, _ := filepath.Rel(RepoRoot, ModulePath)\<close>: with an empty \<^verbatim>\<open>RepoRoot\<close> the call
  returns an error, which is dropped, and the empty string.
\<close>

definition relPath :: "Builder \<Rightarrow> string" where
  "relPath b =
     (case ConfigRepoRoot (Config (projectInfo b)) of
        None \<Rightarrow> ''''
      | Some root \<Rightarrow> filepath_Rel root (ModulePath (projectInfo b)))"

definition getBuildCommand :: "Builder \<Rightarrow> string \<Rightarrow> string list" where
  "getBuildCommand b profile =
     (let cmd0 = [''mvn'', ''clean''];
          cmd1 = (if ConfigRepoRoot (Config (projectInfo b)) \<noteq> None
                     \<and> ConfigRepoRoot (Config (projectInfo b)) \<noteq> Some (ModulePath (projectInfo b))
                  then cmd0 @ [''package'', ''-pl'', relPath b, ''-am'']
                  else if Packaging (projectInfo b) = ''jar'' then cmd0 @ [''install'']
                  else cmd0 @ [''package'']);
          cmd2 = cmd1 @ GetProfileArgs (Config (projectInfo b)) profile
      in if SkipTests (Config (projectInfo b)) then cmd2 @ [''-DskipTests''] else cmd2)"

definition getInstallCommand :: "Builder \<Rightarrow> string list" where
  "getInstallCommand b = [''mvn'', ''install'', ''-pl'', relPath b, ''-DskipTests'']"

definition executeBuild :: "go_os \<Rightarrow> Builder \<Rightarrow> string list \<Rightarrow> string option" where
  "executeBuild os b cmdArgs =
     (let workDir = (case ConfigRepoRoot (Config (projectInfo b)) of
                       None \<Rightarrow> ModulePath (projectInfo b)
                     | Some root \<Rightarrow> root)
      in cmd_Run os workDir cmdArgs)"

text \<open>
  \<^verbatim>\<open>Build\<close> returns its error (\<open>None\<close> for \<^verbatim>\<open>nil\<close>) together with the commands it
  has executed, in order. Printing is left out.
\<close>

definition Build :: "go_os \<Rightarrow> Builder \<Rightarrow> string \<Rightarrow> error option \<times> string list list" where
  "Build os b profile =
     (if profile \<noteq> '''' \<and> \<not> isValidProfile b profile then
        (Some (Err InvalidProfileError
                 (''invalid profile '' @ [CHR 0x27] @ profile @ [CHR 0x27]
                  @ '' for project '' @ Name (projectInfo b))), [])
      else
        let buildCmd = getBuildCommand b profile in
        if \<not> confirm os then (None, [])
        else
          (case executeBuild os b buildCmd of
             Some err \<Rightarrow> (Some (Err BuildExecutionError (''build failed: '' @ err)), [buildCmd])
           | None \<Rightarrow>
               if ConfigRepoRoot (Config (projectInfo b)) \<noteq> None
                  \<and> Packaging (projectInfo b) = ''jar''
               then
                 (let installCmd = getInstallCommand b in
                  case executeBuild os b installCmd of
                    Some err \<Rightarrow> (Some (Err BuildExecutionError (''install failed: '' @ err)),
                                 [buildCmd, installCmd])
                  | None \<Rightarrow> (None, [buildCmd, installCmd]))
               else (None, [buildCmd])))"

definition fallbackRestartCheck :: "Builder \<Rightarrow> string \<Rightarrow> string \<times> string" where
  "fallbackRestartCheck b artifactName =
     (if IsGlobalModule (projectInfo b) then (''required'', ''Global module modification'')
      else if strings_HasSuffix artifactName ''.jar'' \<and> strings_Contains artifactName ''EJB''
        then (''recommended'', ''EJB implementation JAR'')
      else if strings_HasSuffix artifactName ''.war'' then (''none'', ''WAR hot-deployment'')
      else (''recommended'', ''Standard deployment (restart to ensure changes are loaded)''))"

text \<open>
  \<^verbatim>\<open>regexp.MatchString(pattern, s)\<close> is a parameter of the model: \<open>Inl\<close> when the
  pattern does not compile, \<open>Inr matched\<close> otherwise. \<open>patterns_loop\<close> is the \<^verbatim>\<open>for\<close>
  loop over the patterns; \<open>None\<close> means that the loop ran to its end.
\<close>

type_synonym regexp = "string \<Rightarrow> string \<Rightarrow> error + bool"

fun patterns_loop :: "regexp \<Rightarrow> RestartPattern list \<Rightarrow> string \<Rightarrow> (string \<times> string) option" where
  "patterns_loop MatchString [] artifactName = None"
| "patterns_loop MatchString (pattern # rest) artifactName =
     (case MatchString (Match pattern) artifactName of
        Inl err \<Rightarrow> patterns_loop MatchString rest artifactName
      | Inr matched \<Rightarrow>
          if matched then Some (Severity pattern, Reason pattern)
          else patterns_loop MatchString rest artifactName)"

definition determineRestartRequirement :: "regexp \<Rightarrow> Builder \<Rightarrow> string \<Rightarrow> string \<times> string" where
  "determineRestartRequirement MatchString b artifactName =
     (if IsGlobalModule (projectInfo b)
         \<and> (case RestartRules (cfg b) of None \<Rightarrow> False | Some rules \<Rightarrow> GlobalModule rules)
      then (''required'', ''Global module modification'')
      else
        (case RestartRules (cfg b) of
           None \<Rightarrow> fallbackRestartCheck b artifactName
         | Some rules \<Rightarrow>
             if length (Patterns rules) = 0 then fallbackRestartCheck b artifactName
             else
               (case patterns_loop MatchString (Patterns rules) artifactName of
                  Some result \<Rightarrow> result
                | None \<Rightarrow>
                    if strings_HasSuffix artifactName ''.war'' then (''none'', ''WAR hot-deployment'')
                    else (''recommended'',
                          ''Standard deployment (restart to ensure changes are loaded)''))))"

section \<open>The JavaScript implementation\<close>

subsection \<open>Values\<close>

text \<open>
  A property that may be missing is an \<open>option\<close>, \<open>None\<close> being \<^verbatim>\<open>undefined\<close>.
  \<open>str_truthy\<close> is JavaScript's truth value of such a string: \<^verbatim>\<open>undefined\<close> and the
  empty string are falsy. \<open>jsval\<close> holds the values that \<^verbatim>\<open>moduleConfig\<close> and the
  expressions \<^verbatim>\<open>moduleConfig && moduleConfig !== ''\<close> and \<^verbatim>\<open>moduleConfig || ''\<close> can have;
  \<open>JMember k\<close> is the member \<open>k\<close> of \<^verbatim>\<open>Object.prototype\<close>, a function or an object, and
  so truthy and different from every string.
\<close>

fun str_truthy :: "string option \<Rightarrow> bool" where
  "str_truthy None = False"
| "str_truthy (Some s) = (s \<noteq> '''')"

datatype jsval = JUndefined | JStr string | JBool bool | JMember string

fun truthy :: "jsval \<Rightarrow> bool" where
  "truthy JUndefined = False"
| "truthy (JStr s) = (s \<noteq> '''')"
| "truthy (JBool b) = b"
| "truthy (JMember k) = True"

definition js_and :: "jsval \<Rightarrow> jsval \<Rightarrow> jsval" where
  "js_and a b = (if truthy a then b else a)"

definition js_or :: "jsval \<Rightarrow> jsval \<Rightarrow> jsval" where
  "js_or a b = (if truthy a then a else b)"

text \<open>
  Reading a property of a table of strings, \<^verbatim>\<open>table?.[key]\<close>. The tables of the
  configuration are plain objects: a key that is not an entry of the table is looked up
  in \<^verbatim>\<open>Object.prototype\<close>, whose members are listed in \<open>object_prototype_names\<close>. A
  missing table gives \<^verbatim>\<open>undefined\<close>.
\<close>

definition object_prototype_names :: "string list" where
  "object_prototype_names =
     [''constructor'', ''__defineGetter__'', ''__defineSetter__'', ''hasOwnProperty'',
      ''__lookupGetter__'', ''__lookupSetter__'', ''isPrototypeOf'', ''propertyIsEnumerable'',
      ''toString'', ''valueOf'', ''__proto__'', ''toLocaleString'']"

definition js_get :: "(string \<rightharpoonup> string) option \<Rightarrow> string \<Rightarrow> jsval" where
  "js_get table key =
     (case table of
        None \<Rightarrow> JUndefined
      | Some entries \<Rightarrow>
          (case entries key of
             Some v \<Rightarrow> JStr v
           | None \<Rightarrow> if key \<in> set object_prototype_names then JMember key else JUndefined))"

subsection \<open>Configuration and descriptor\<close>

text \<open>
  \<open>projects\<close> lists the entries of \<^verbatim>\<open>config.projects\<close> in the order of
  \<^verbatim>\<open>Object.entries\<close>. \<open>base_path\<close> is the text of the configuration, as
  \<^verbatim>\<open>startsWith\<close> reads it.
\<close>

record projectConfig =
  base_path :: string
  default_profile :: "string option"
  available_profiles :: "string list option"
  profile_overrides :: "(string \<rightharpoonup> string list) option"
  skip_tests :: bool
  modules :: "(string \<rightharpoonup> string) option"

record config_js =
  projects :: "(string \<times> projectConfig) list"

text \<open>
  The parsed descriptor. \<open>pom_module\<close> is \<^verbatim>\<open>pom.project.modules.module\<close>, which the XML
  parser delivers as a string for one element and as an array for several.
\<close>

datatype pom_modules = NoModules | OneModule string | ManyModules "string list"

record pom_project =
  pom_artifactId :: "string option"
  pom_packaging :: "string option"
  pom_module :: pom_modules

record pom =
  pom_project :: "pom_project option"

record moduleInfo =
  artifactId :: string
  packaging :: string
  path :: fpath
  relativePath :: string
  isGlobalModule :: jsval
  deploymentPath :: jsval
  isMultiModule :: bool
  subModules :: "string list"

record js_fs =
  existsSync :: "fpath \<Rightarrow> bool"
  parser_parse :: "fpath \<Rightarrow> pom option"

subsection \<open>\<^verbatim>\<open>detector.js\<close>\<close>

text \<open>\<^verbatim>\<open>path.dirname\<close>, \<^verbatim>\<open>path.join(dir, name)\<close> on resolved paths.\<close>

definition path_dirname :: "fpath \<Rightarrow> fpath" where
  "path_dirname p = butlast p"

definition path_join :: "fpath \<Rightarrow> string \<Rightarrow> fpath" where
  "path_join p name = p @ [name]"

text \<open>
  \<^verbatim>\<open>path.resolve\<close> on the text of an absolute path that has no \<^verbatim>\<open>.\<close> or \<^verbatim>\<open>..\<close>
  segment: the segments between the slashes, empty ones dropped. \<^verbatim>\<open>path.relative\<close>
  resolves its first argument this way; it gives the empty string for equal paths.
\<close>

fun segments_from :: "string \<Rightarrow> string \<Rightarrow> string list" where
  "segments_from acc [] = (if acc = [] then [] else [acc])"
| "segments_from acc (c # cs) =
     (if c = CHR ''/''
      then (if acc = [] then segments_from [] cs else acc # segments_from [] cs)
      else segments_from (acc @ [c]) cs)"

definition path_resolve :: "string \<Rightarrow> fpath" where
  "path_resolve s = segments_from [] s"

definition path_relative :: "string \<Rightarrow> fpath \<Rightarrow> string" where
  "path_relative from to = join_with ''/'' (rel_segments (path_resolve from) to)"

text \<open>The \<^verbatim>\<open>while\<close> loop of \<^verbatim>\<open>findPomXml\<close>; \<open>None\<close> is \<^verbatim>\<open>null\<close>. The root \<^verbatim>\<open>rootDir\<close> is \<open>[]\<close>.\<close>

function findPomXml :: "js_fs \<Rightarrow> fpath \<Rightarrow> fpath option" where
  "findPomXml fs currentDir =
     (if currentDir \<noteq> [] then
        (let pomPath = path_join currentDir ''pom.xml'' in
         if existsSync fs pomPath then Some pomPath
         else findPomXml fs (path_dirname currentDir))
      else None)"
  by pat_completeness auto
termination
  by (relation "measure (\<lambda>(fs, d). length d)") (auto simp: path_dirname_def)

definition parsePom :: "js_fs \<Rightarrow> fpath \<Rightarrow> error + pom" where
  "parsePom fs pomPath =
     (case parser_parse fs pomPath of
        None \<Rightarrow> Inl (Err ParseError ''Failed to parse pom.xml: '')
      | Some pom \<Rightarrow> Inr pom)"

definition detectModule_js :: "fpath \<Rightarrow> pom \<Rightarrow> projectConfig \<Rightarrow> error + moduleInfo" where
  "detectModule_js pomPath pom projectConfig =
     (let artifactId = (case pom_project pom of None \<Rightarrow> None | Some pr \<Rightarrow> pom_artifactId pr);
          packaging = (case pom_project pom of
                         None \<Rightarrow> ''jar''
                       | Some pr \<Rightarrow>
                           if str_truthy (pom_packaging pr) then the (pom_packaging pr) else ''jar'')
      in
      if \<not> str_truthy artifactId then Inl (Err ParseError ''artifactId not found in pom.xml'')
      else
        let modulePath = path_dirname pomPath;
            relativePath = path_relative (base_path projectConfig) modulePath;
            moduleConfig = js_get (modules projectConfig) (the artifactId);
            isGlobalModule = js_and moduleConfig (JBool (moduleConfig \<noteq> JStr ''''));
            mods = (case pom_project pom of None \<Rightarrow> NoModules | Some pr \<Rightarrow> pom_module pr);
            isMultiModule = (case mods of
                               NoModules \<Rightarrow> False
                             | OneModule m \<Rightarrow> m \<noteq> ''''
                             | ManyModules ms \<Rightarrow> length ms > 0)
        in Inr \<lparr>artifactId = the artifactId,
                 packaging = packaging,
                 path = modulePath,
                 relativePath = relativePath,
                 isGlobalModule = isGlobalModule,
                 deploymentPath = js_or moduleConfig (JStr ''''),
                 isMultiModule = isMultiModule,
                 subModules = (if isMultiModule
                               then (case mods of
                                       ManyModules ms \<Rightarrow> ms
                                     | OneModule m \<Rightarrow> [m]
                                     | NoModules \<Rightarrow> [])
                               else [])\<rparr>)"

text \<open>The object that \<^verbatim>\<open>detectProject\<close> returns; \<open>module_of\<close> is its property \<^verbatim>\<open>module\<close>.\<close>

record detection =
  project :: string
  projectConfig :: projectConfig
  pomPath :: fpath
  module_of :: moduleInfo

text \<open>
  \<open>detectProject\<close> takes the current directory after \<^verbatim>\<open>path.resolve\<close>. The test of its loop,
  \<^verbatim>\<open>currentPath.startsWith(projectConfig.base_path)\<close>, and the loop itself, which
  stops at the first project that passes.
\<close>

definition startsWith :: "string \<Rightarrow> string \<Rightarrow> bool" where
  "startsWith s pre = prefix pre s"

fun matchedProject :: "string \<Rightarrow> (string \<times> projectConfig) list \<Rightarrow> (string \<times> projectConfig) option" where
  "matchedProject currentPath [] = None"
| "matchedProject currentPath ((projectName, pc) # rest) =
     (if startsWith currentPath (base_path pc) then Some (projectName, pc)
      else matchedProject currentPath rest)"

definition detectProject :: "js_fs \<Rightarrow> config_js \<Rightarrow> fpath \<Rightarrow> error + detection" where
  "detectProject fs config cwd =
     (let currentPath = render cwd in
      case matchedProject currentPath (projects config) of
        None \<Rightarrow> Inl (Err NotInProjectError
                       ''Current directory is not within any configured project'')
      | Some (name, pc) \<Rightarrow>
          (case findPomXml fs cwd of
             None \<Rightarrow> Inl (Err DescriptorNotFoundError
                            ''No pom.xml found in current directory or parent directories'')
           | Some pomFile \<Rightarrow>
               (case parsePom fs pomFile of
                  Inl e \<Rightarrow> Inl e
                | Inr pom \<Rightarrow>
                    (case detectModule_js pomFile pom pc of
                       Inl e \<Rightarrow> Inl e
                     | Inr moduleInfo \<Rightarrow>
                         Inr \<lparr>project = name, projectConfig = pc,
                              pomPath = pomFile, module_of = moduleInfo\<rparr>))))"

subsection \<open>\<^verbatim>\<open>builder.js\<close>\<close>

text \<open>
  \<open>getProfiles\<close> reads the override table at the requested name among the entries of the
  table, whose values are lists of names. For a requested name that is no entry of the
  table but the name of a member of \<^verbatim>\<open>Object.prototype\<close>, the real lookup returns that
  member, which is no list of names; the type of the model has no such value, and the
  model returns the requested name alone there, as for every other name without an entry.
\<close>

definition getProfiles :: "string option \<Rightarrow> projectConfig \<Rightarrow> error + string list" where
  "getProfiles profile pc =
     (if \<not> str_truthy profile \<or> profile = Some ''none'' then Inr []
      else
        let available = (case available_profiles pc of None \<Rightarrow> [] | Some a \<Rightarrow> a) in
        if length available > 0 \<and> the profile \<notin> set available
        then Inl (Err InvalidProfileError
                    (''Profile '' @ [CHR 0x27] @ the profile @ [CHR 0x27]
                     @ '' not available. Available: '' @ join_with '', '' available))
        else
          (case profile_overrides pc of
             None \<Rightarrow> Inr [the profile]
           | Some overrides \<Rightarrow>
               (case overrides (the profile) of
                  Some names \<Rightarrow> Inr names
                | None \<Rightarrow> Inr [the profile])))"

definition buildMavenCommand ::
  "moduleInfo \<Rightarrow> string option \<Rightarrow> bool \<Rightarrow> projectConfig \<Rightarrow> error + string list" where
  "buildMavenCommand moduleInfo profile skipTests pc =
     (case getProfiles profile pc of
        Inl e \<Rightarrow> Inl e
      | Inr profiles \<Rightarrow>
          Inr ([''install'']
               @ (if length profiles > 0 then [''-P'', join_with '','' profiles] else [])
               @ (if skipTests then [''-DskipTests=true''] else [])
               @ (if isMultiModule moduleInfo
                  then [''-pl'', artifactId moduleInfo, ''-am''] else [])))"

text \<open>\<^verbatim>\<open>profile || projectConfig.default_profile || 'none'\<close>\<close>

definition effectiveProfile :: "string option \<Rightarrow> projectConfig \<Rightarrow> string" where
  "effectiveProfile profile pc =
     (if str_truthy profile then the profile
      else if str_truthy (default_profile pc) then the (default_profile pc)
      else ''none'')"

text \<open>
  The environment of \<^verbatim>\<open>buildModule\<close>: the answer to the confirmation prompt and what
  \<^verbatim>\<open>execa(file, args, {cwd})\<close> does (\<open>None\<close> for success, the message of the error
  otherwise). \<^verbatim>\<open>buildModule\<close> returns the error it throws, if any, together with the
  commands it has executed.
\<close>

record js_os =
  confirm_js :: bool
  execa :: "string \<Rightarrow> string list \<Rightarrow> string \<Rightarrow> string option"

definition buildModule ::
  "js_os \<Rightarrow> detection \<Rightarrow> string option \<Rightarrow> bool \<Rightarrow> error option \<times> string list list" where
  "buildModule os d profile options_skipTests =
     (let pc = projectConfig d;
          moduleInfo = module_of d;
          skipTests = (options_skipTests \<or> skip_tests pc)
      in
      case buildMavenCommand moduleInfo (Some (effectiveProfile profile pc)) skipTests pc of
        Inl e \<Rightarrow> (Some e, [])
      | Inr cmdArgs \<Rightarrow>
          if \<not> confirm_js os then (None, [])
          else
            (case execa os ''mvn'' cmdArgs
                    (if isMultiModule moduleInfo then base_path pc else render (path moduleInfo)) of
               Some err \<Rightarrow> (Some (Err BuildExecutionError err), [''mvn'' # cmdArgs])
             | None \<Rightarrow> (None, [''mvn'' # cmdArgs])))"

section \<open>Notions of the specification and sample inputs\<close>

text \<open>
  The two components of the specification's restart rule set, read from the Go
  configuration: a configuration without \<^verbatim>\<open>restart_rules\<close> has no override and no
  patterns.
\<close>

definition globalModuleOverride :: "Config \<Rightarrow> bool" where
  "globalModuleOverride c =
     (case RestartRules c of None \<Rightarrow> False | Some rules \<Rightarrow> GlobalModule rules)"

definition patterns :: "Config \<Rightarrow> RestartPattern list" where
  "patterns c = (case RestartRules c of None \<Rightarrow> [] | Some rules \<Rightarrow> Patterns rules)"

text \<open>
  A Go project at \<^verbatim>\<open>/repo/app1\<close> with an ordinary module \<^verbatim>\<open>core\<close> and a global module
  \<^verbatim>\<open>auth\<close>, the fresh \<^verbatim>\<open>ProjectInfo\<close> that \<open>DetectProject\<close> makes for it, and a disk
  whose only descriptor is \<^verbatim>\<open>/repo/app1/<dir>/pom.xml\<close>, with the artifact identifier
  \<^verbatim>\<open>core-api\<close> and no packaging element.
\<close>

definition app1 :: ProjectConfig where
  "app1 = \<lparr>BasePath = [''repo'', ''app1''], DefaultProfile = '''',
            AvailableProfiles = [''TEST'', ''PROD''],
            ProfileOverrides = [''''  \<mapsto> [''dev'', ''local'']],
            SkipTests = False,
            Modules = [''core'' \<mapsto> '''', ''auth'' \<mapsto> ''modules/org/auth/main''],
            ConfigRepoRoot = Some [''repo'', ''app1'']\<rparr>"

definition app1_info :: ProjectInfo where
  "app1_info = \<lparr>Name = ''app1'', Config = app1, ModuleName = '''', ModulePath = [],
                 RepoRoot = [], Packaging = '''', DeploymentPath = '''',
                 IsGlobalModule = False\<rparr>"

definition disk :: "string \<Rightarrow> go_fs" where
  "disk dir =
     \<lparr>Stat = (\<lambda>f. f = [''repo'', ''app1'', dir, ''pom.xml'']),
      Unmarshal = (\<lambda>f. if f = [''repo'', ''app1'', dir, ''pom.xml'']
                        then Some \<lparr>ArtifactId = ''core-api'', PomPackaging = ''''\<rparr>
                        else None)\<rparr>"

text \<open>
  The same project for the JavaScript implementation, and a parsed descriptor that has
  the artifact identifier \<open>a\<close> and nothing else.
\<close>

definition sample_pc :: projectConfig where
  "sample_pc = \<lparr>base_path = ''/repo/app1'', default_profile = None,
                 available_profiles = Some [''TEST'', ''PROD''],
                 profile_overrides = Some [''''  \<mapsto> [''dev'', ''local'']],
                 skip_tests = False,
                 modules = Some [''core'' \<mapsto> '''', ''auth'' \<mapsto> ''modules/org/auth/main'']\<rparr>"

definition js_pom :: "string \<Rightarrow> pom" where
  "js_pom a = \<lparr>pom_project = Some \<lparr>pom_artifactId = Some a, pom_packaging = None,
                                     pom_module = NoModules\<rparr>\<rparr>"

text \<open>The artifact identifier that a parsed descriptor declares, \<^verbatim>\<open>pom.project?.artifactId\<close>.\<close>

definition declared_artifactId :: "pom \<Rightarrow> string option" where
  "declared_artifactId jpom =
     (case pom_project jpom of None \<Rightarrow> None | Some pr \<Rightarrow> pom_artifactId pr)"

text \<open>
  A Go builder for the module \<^verbatim>\<open>/repo/app1/core\<close> of that project with the packaging
  \<open>pk\<close>, an environment in which the user confirms and every command succeeds, and a
  JavaScript module description.
\<close>

definition app1_builder :: "string \<Rightarrow> Builder" where
  "app1_builder pk =
     \<lparr>cfg = \<lparr>Projects = [(''app1'', app1)], RestartRules = None\<rparr>,
      projectInfo = \<lparr>Name = ''app1'', Config = app1, ModuleName = ''core'',
                      ModulePath = [''repo'', ''app1'', ''core''], RepoRoot = [''repo'', ''app1''],
                      Packaging = pk, DeploymentPath = '''', IsGlobalModule = False\<rparr>\<rparr>"

definition yes_os :: go_os where
  "yes_os = \<lparr>confirm = True, cmd_Run = (\<lambda>dir args. None)\<rparr>"

definition js_module :: "string \<Rightarrow> string \<Rightarrow> bool \<Rightarrow> moduleInfo" where
  "js_module a pk multi =
     \<lparr>artifactId = a, packaging = pk, path = [''repo'', ''app1'', ''core''],
      relativePath = ''core'', isGlobalModule = JStr '''', deploymentPath = JStr '''',
      isMultiModule = multi, subModules = (if multi then [''sub''] else [])\<rparr>"

text \<open>
  The same Go builder for a project without a repository root, so that the module is
  built on its own; an environment for \<open>buildModule\<close> in which the user confirms and
  the command succeeds; and the result of \<open>detectProject\<close> for a module description.
\<close>

definition app1_single :: "string \<Rightarrow> Builder" where
  "app1_single pk =
     \<lparr>cfg = \<lparr>Projects = [(''app1'', app1\<lparr>ConfigRepoRoot := None\<rparr>)], RestartRules = None\<rparr>,
      projectInfo = \<lparr>Name = ''app1'', Config = app1\<lparr>ConfigRepoRoot := None\<rparr>,
                      ModuleName = ''core'', ModulePath = [''repo'', ''app1'', ''core''],
                      RepoRoot = [''repo'', ''app1'', ''core''],
                      Packaging = pk, DeploymentPath = '''', IsGlobalModule = False\<rparr>\<rparr>"

text \<open>
  The Go builder for the same module with the repository root \<open>cfgRoot\<close> in the project
  configuration and the repository root \<open>repoRoot\<close> in the classification.
\<close>

definition builder_of :: "fpath option \<Rightarrow> fpath \<Rightarrow> string \<Rightarrow> Builder" where
  "builder_of cfgRoot repoRoot pk =
     \<lparr>cfg = \<lparr>Projects = [(''app1'', app1\<lparr>ConfigRepoRoot := cfgRoot\<rparr>)], RestartRules = None\<rparr>,
      projectInfo = \<lparr>Name = ''app1'', Config = app1\<lparr>ConfigRepoRoot := cfgRoot\<rparr>,
                      ModuleName = ''core'', ModulePath = [''repo'', ''app1'', ''core''],
                      RepoRoot = repoRoot,
                      Packaging = pk, DeploymentPath = '''', IsGlobalModule = False\<rparr>\<rparr>"

definition yes_js :: js_os where
  "yes_js = \<lparr>confirm_js = True, execa = (\<lambda>file args dir. None)\<rparr>"

definition js_detection :: "moduleInfo \<Rightarrow> detection" where
  "js_detection m = \<lparr>project = ''app1'', projectConfig = sample_pc,
                      pomPath = [''repo'', ''app1'', ''core'', ''pom.xml''], module_of = m\<rparr>"

text \<open>
  A project at \<^verbatim>\<open>/foo\<close>, in both implementations, with a disk whose only descriptor is
  \<^verbatim>\<open>/foo-bar/pom.xml\<close>; and a disk whose only descriptor is \<^verbatim>\<open>/pom.xml\<close>, in the root.
\<close>

definition foo_pc :: projectConfig where
  "foo_pc = \<lparr>base_path = ''/foo'', default_profile = None, available_profiles = None,
              profile_overrides = None, skip_tests = False, modules = None\<rparr>"

definition foo_config_js :: config_js where
  "foo_config_js = \<lparr>projects = [(''foo'', foo_pc)]\<rparr>"

definition foobar_js :: js_fs where
  "foobar_js = \<lparr>existsSync = (\<lambda>f. f = [''foo-bar'', ''pom.xml'']),
                 parser_parse = (\<lambda>f. if f = [''foo-bar'', ''pom.xml'']
                                     then Some (js_pom ''other'') else None)\<rparr>"

definition foo_config :: Config where
  "foo_config = \<lparr>Projects = [(''foo'', app1\<lparr>BasePath := [''foo'']\<rparr>)], RestartRules = None\<rparr>"

definition foobar_go :: go_fs where
  "foobar_go = \<lparr>Stat = (\<lambda>f. f = [''foo-bar'', ''pom.xml'']),
                 Unmarshal = (\<lambda>f. if f = [''foo-bar'', ''pom.xml'']
                                  then Some \<lparr>ArtifactId = ''other'', PomPackaging = ''''\<rparr>
                                  else None)\<rparr>"

definition root_pom_js :: js_fs where
  "root_pom_js = \<lparr>existsSync = (\<lambda>f. f = [''pom.xml'']), parser_parse = (\<lambda>f. None)\<rparr>"

definition root_pom_go :: go_fs where
  "root_pom_go = \<lparr>Stat = (\<lambda>f. f = [''pom.xml'']), Unmarshal = (\<lambda>f. None)\<rparr>"

text \<open>
  The number of times the loop of \<^verbatim>\<open>findPomXML\<close> moves to the parent directory before it
  ends: the loop of \<open>findPomXML_loop\<close> with a counter in place of its result.
\<close>

function findPomXML_steps :: "go_fs \<Rightarrow> fpath \<Rightarrow> nat" where
  "findPomXML_steps fs currentDir =
     (let pomPath = filepath_Join currentDir ''pom.xml'' in
      if Stat fs pomPath then 0
      else
        let parentDir = filepath_Dir currentDir in
        if parentDir = currentDir then 0
        else Suc (findPomXML_steps fs parentDir))"
  by pat_completeness auto
termination
  by (relation "measure (\<lambda>(fs, d). length d)")
    (auto simp: filepath_Dir_def intro: diff_less dest!: arg_cong [where f = length])

text \<open>
  The JavaScript project with an override that expands the profile \<^verbatim>\<open>PROD\<close> to the profile
  \<^verbatim>\<open>none\<close>.
\<close>

definition override_pc :: projectConfig where
  "override_pc = sample_pc\<lparr>profile_overrides := Some [''PROD'' \<mapsto> [''none'']]\<rparr>"

section \<open>Restart severity (Go)\<close>

lemma patterns_loop_find:
  "patterns_loop M ps a =
     map_option (\<lambda>p. (Severity p, Reason p)) (find (\<lambda>p. M (Match p) a = Inr True) ps)"
  by (induction ps) (auto split: sum.splits)

text \<open>
  Claim C2. For every artifact name, module and rule set, \<open>determineRestartRequirement\<close>
  returns the result of the ordered table, the first applicable rule winning:
  (1) a global module with the override set is \<^verbatim>\<open>required\<close>, "Global module
  modification", whatever the patterns are; (2) with no patterns the fallback applies
  (global: required; a name ending in \<^verbatim>\<open>.jar\<close> that contains \<^verbatim>\<open>EJB\<close>: recommended; a name
  ending in \<^verbatim>\<open>.war\<close>: none; otherwise recommended); (3) otherwise the severity and
  reason of the first pattern, in declared order, whose expression compiles and matches
  the name (an expression that does not compile is passed over); (4) when no pattern
  matches, none for a \<^verbatim>\<open>.war\<close> name and recommended, "Standard deployment", otherwise.
  The severities and reasons are the strings of the source, which the specification
  writes without capitals and in short.
\<close>

theorem determineRestartRequirement_table:
  "determineRestartRequirement M b a =
     (if IsGlobalModule (projectInfo b) \<and> globalModuleOverride (cfg b)
        then (''required'', ''Global module modification'')
      else if patterns (cfg b) = [] then
        (if IsGlobalModule (projectInfo b) then (''required'', ''Global module modification'')
         else if strings_HasSuffix a ''.jar'' \<and> strings_Contains a ''EJB''
           then (''recommended'', ''EJB implementation JAR'')
         else if strings_HasSuffix a ''.war'' then (''none'', ''WAR hot-deployment'')
         else (''recommended'', ''Standard deployment (restart to ensure changes are loaded)''))
      else
        (case find (\<lambda>p. M (Match p) a = Inr True) (patterns (cfg b)) of
           Some p \<Rightarrow> (Severity p, Reason p)
         | None \<Rightarrow>
             if strings_HasSuffix a ''.war'' then (''none'', ''WAR hot-deployment'')
             else (''recommended'', ''Standard deployment (restart to ensure changes are loaded)'')))"
proof (cases "RestartRules (cfg b)")
  case None
  then show ?thesis
    by (simp add: determineRestartRequirement_def globalModuleOverride_def patterns_def
        fallbackRestartCheck_def)
next
  case (Some rules)
  then show ?thesis
    by (simp add: determineRestartRequirement_def globalModuleOverride_def patterns_def
        fallbackRestartCheck_def patterns_loop_find split: option.splits)
qed

section \<open>The profile named none (JavaScript)\<close>

lemma effectiveProfile_none_command:
  assumes "effectiveProfile profile pc = ''none''"
  shows "buildMavenCommand m (Some (effectiveProfile profile pc)) skipTests pc =
       Inr ([''install'']
            @ (if skipTests then [''-DskipTests=true''] else [])
            @ (if isMultiModule m then [''-pl'', artifactId m, ''-am''] else []))"
  using assms by (simp add: getProfiles_def buildMavenCommand_def)

text \<open>
  Claim C10, as amended. In the JavaScript implementation \<open>getProfiles\<close> returns the empty
  list for the profile \<^verbatim>\<open>none\<close> under every project configuration, so without any check
  against \<open>available_profiles\<close>; \<^verbatim>\<open>none\<close> is also what \<open>buildModule\<close> substitutes when no
  profile is requested and no default is configured; and when the requested profile, or
  the default profile of a request without one, is \<^verbatim>\<open>none\<close>, the build command has no
  profile flag, \<open>buildModule\<close> executes nothing but that command and raises no
  invalid-profile error.
\<close>

theorem none_profile_js:
  "getProfiles (Some ''none'') pc = Inr []
   \<and> (\<not> str_truthy profile \<and> \<not> str_truthy (default_profile pc)
        \<longrightarrow> effectiveProfile profile pc = ''none'')
   \<and> buildMavenCommand m (Some (effectiveProfile (Some ''none'') pc)) skipTests pc =
       Inr ([''install'']
            @ (if skipTests then [''-DskipTests=true''] else [])
            @ (if isMultiModule m then [''-pl'', artifactId m, ''-am''] else []))
   \<and> (profile = Some ''none'' \<or> (\<not> str_truthy profile \<and> default_profile pc = Some ''none'')
        \<longrightarrow> effectiveProfile profile pc = ''none'')
   \<and> (effectiveProfile profile (projectConfig d) = ''none'' \<longrightarrow>
        snd (buildModule os d profile sk) =
          (if confirm_js os
           then [[''mvn'', ''install'']
                 @ (if sk \<or> skip_tests (projectConfig d) then [''-DskipTests=true''] else [])
                 @ (if isMultiModule (module_of d)
                    then [''-pl'', artifactId (module_of d), ''-am''] else [])]
           else [])
        \<and> (case fst (buildModule os d profile sk) of
              None \<Rightarrow> True
            | Some e \<Rightarrow> kind_of e = BuildExecutionError))"
proof -
  have a: "getProfiles (Some ''none'') pc = Inr []
   \<and> (\<not> str_truthy profile \<and> \<not> str_truthy (default_profile pc)
        \<longrightarrow> effectiveProfile profile pc = ''none'')
   \<and> buildMavenCommand m (Some (effectiveProfile (Some ''none'') pc)) skipTests pc =
       Inr ([''install'']
            @ (if skipTests then [''-DskipTests=true''] else [])
            @ (if isMultiModule m then [''-pl'', artifactId m, ''-am''] else []))"
    by (simp add: getProfiles_def effectiveProfile_def buildMavenCommand_def)
  have b: "profile = Some ''none'' \<or> (\<not> str_truthy profile \<and> default_profile pc = Some ''none'')
        \<longrightarrow> effectiveProfile profile pc = ''none''"
    by (auto simp: effectiveProfile_def)
  have c: "effectiveProfile profile (projectConfig d) = ''none'' \<longrightarrow>
        snd (buildModule os d profile sk) =
          (if confirm_js os
           then [[''mvn'', ''install'']
                 @ (if sk \<or> skip_tests (projectConfig d) then [''-DskipTests=true''] else [])
                 @ (if isMultiModule (module_of d)
                    then [''-pl'', artifactId (module_of d), ''-am''] else [])]
           else [])
        \<and> (case fst (buildModule os d profile sk) of
              None \<Rightarrow> True
            | Some e \<Rightarrow> kind_of e = BuildExecutionError)"
  proof (intro impI)
    assume e: "effectiveProfile profile (projectConfig d) = ''none''"
    have bm: "buildMavenCommand (module_of d) (Some (effectiveProfile profile (projectConfig d)))
                (sk \<or> skip_tests (projectConfig d)) (projectConfig d) =
              Inr ([''install'']
                   @ (if sk \<or> skip_tests (projectConfig d) then [''-DskipTests=true''] else [])
                   @ (if isMultiModule (module_of d)
                      then [''-pl'', artifactId (module_of d), ''-am''] else []))"
      by (rule effectiveProfile_none_command [OF e])
    show "snd (buildModule os d profile sk) =
          (if confirm_js os
           then [[''mvn'', ''install'']
                 @ (if sk \<or> skip_tests (projectConfig d) then [''-DskipTests=true''] else [])
                 @ (if isMultiModule (module_of d)
                    then [''-pl'', artifactId (module_of d), ''-am''] else [])]
           else [])
        \<and> (case fst (buildModule os d profile sk) of
              None \<Rightarrow> True
            | Some e \<Rightarrow> kind_of e = BuildExecutionError)"
      unfolding buildModule_def Let_def bm
      by (simp split: option.splits)
  qed
  from a b c show ?thesis by blast
qed

theorem none_profile_js_witness:
  "''none'' \<notin> set [''TEST'', ''PROD'']
   \<and> available_profiles sample_pc = Some [''TEST'', ''PROD'']
   \<and> getProfiles (Some ''none'') sample_pc = Inr []
   \<and> \<not> str_truthy None \<and> \<not> str_truthy (default_profile sample_pc)
   \<and> effectiveProfile None sample_pc = ''none''
   \<and> effectiveProfile (Some ''none'') sample_pc = ''none''
   \<and> effectiveProfile None (sample_pc\<lparr>default_profile := Some ''none''\<rparr>) = ''none''
   \<and> buildModule yes_js (js_detection (js_module ''core'' ''jar'' False)) (Some ''none'') False
       = (None, [[''mvn'', ''install'']])"
proof -
  have d: "projectConfig (js_detection (js_module ''core'' ''jar'' False)) = sample_pc"
    "isMultiModule (module_of (js_detection (js_module ''core'' ''jar'' False))) = False"
    "skip_tests sample_pc = False" "confirm_js yes_js" "default_profile sample_pc = None"
    "available_profiles sample_pc = Some [''TEST'', ''PROD'']"
    by (simp_all add: js_detection_def js_module_def sample_pc_def yes_js_def)
  have e: "fst (buildModule yes_js (js_detection (js_module ''core'' ''jar'' False))
                  (Some ''none'') False) = None"
    by (simp add: buildModule_def d effectiveProfile_def buildMavenCommand_def getProfiles_def
        yes_js_def)
  have w1: "getProfiles (Some ''none'') sample_pc = Inr []
     \<and> effectiveProfile None sample_pc = ''none''"
    using none_profile_js [where pc = sample_pc and profile = None
        and d = "js_detection (js_module ''core'' ''jar'' False)"]
    by (simp add: d)
  have w2: "effectiveProfile (Some ''none'') sample_pc = ''none''
     \<and> snd (buildModule yes_js (js_detection (js_module ''core'' ''jar'' False)) (Some ''none'') False)
        = [[''mvn'', ''install'']]"
    using none_profile_js [where pc = sample_pc and profile = "Some ''none''"
        and d = "js_detection (js_module ''core'' ''jar'' False)" and os = yes_js and sk = False]
    by (simp add: d)
  have w3: "effectiveProfile None (sample_pc\<lparr>default_profile := Some ''none''\<rparr>) = ''none''"
    using none_profile_js [where pc = "sample_pc\<lparr>default_profile := Some ''none''\<rparr>"
        and profile = None and d = "js_detection (js_module ''core'' ''jar'' False)"]
    by simp
  from w1 w2 w3 e d show ?thesis
    by (simp add: prod_eq_iff)
qed

text \<open>
  The claim as stated fails in its last part: a profile named \<^verbatim>\<open>none\<close> reaches the build
  when an override lists it. With the override \<^verbatim>\<open>PROD -> [none]\<close> and the requested profile
  \<^verbatim>\<open>PROD\<close>, \<open>getProfiles\<close> returns \<^verbatim>\<open>none\<close> and the command that \<open>buildModule\<close> executes
  has the flag \<^verbatim>\<open>-P none\<close>.
\<close>

theorem none_profile_override_counterexample:
  "the (profile_overrides override_pc) ''PROD'' = Some [''none'']
   \<and> getProfiles (Some ''PROD'') override_pc = Inr [''none'']
   \<and> buildMavenCommand (js_module ''core'' ''jar'' False)
        (Some (effectiveProfile (Some ''PROD'') override_pc)) False override_pc
       = Inr [''install'', ''-P'', ''none'']
   \<and> buildModule yes_js
        \<lparr>project = ''app1'', projectConfig = override_pc,
         pomPath = [''repo'', ''app1'', ''core'', ''pom.xml''],
         module_of = js_module ''core'' ''jar'' False\<rparr> (Some ''PROD'') False
       = (None, [[''mvn'', ''install'', ''-P'', ''none'']])"
  by (simp add: override_pc_def sample_pc_def getProfiles_def buildMavenCommand_def
      effectiveProfile_def buildModule_def js_module_def yes_js_def)

section \<open>Module classification\<close>

lemma str_truthy_iff: "str_truthy x \<longleftrightarrow> (\<exists>s. x = Some s \<and> s \<noteq> [])"
  by (cases x) auto

lemma strings_Contains_append:
  "prefix sub s \<Longrightarrow> strings_Contains (pre @ s) sub"
proof (induction pre)
  case Nil
  then show ?case by (cases s) auto
next
  case (Cons c pre)
  then show ?case by simp
qed

lemma unconfigured_message_hint:
  "strings_Contains (unconfigured_message m n) ''Please add it to the ''"
proof -
  have "\<exists>pre s. unconfigured_message m n = pre @ s \<and> prefix ''Please add it to the '' s"
    unfolding unconfigured_message_def
    by (intro exI [of _ "''module '' @ [CHR 0x27] @ m @ [CHR 0x27] @ '' is not configured in config.yaml'' @ [CHR 0x0A, CHR 0x0A]"] exI conjI) (simp, simp)
  then show ?thesis
    using strings_Contains_append by metis
qed

lemma detectModule_found:
  assumes "findPomXML fs cwd = Inr pomFile" and "Unmarshal fs pomFile = Some pom"
  shows "detectModule fs p cwd =
     (case Modules (Config p) (filepath_Base (filepath_Dir pomFile)) of
        None \<Rightarrow> Inl (Err UnconfiguredModuleError
                       (unconfigured_message (filepath_Base (filepath_Dir pomFile)) (Name p)))
      | Some v \<Rightarrow>
          Inr (p\<lparr>ModuleName := filepath_Base (filepath_Dir pomFile),
                 ModulePath := filepath_Dir pomFile,
                 RepoRoot := (if hasParentPom fs (BasePath (Config p))
                              then BasePath (Config p) else filepath_Dir pomFile),
                 Packaging := (if PomPackaging pom = '''' then ''jar'' else PomPackaging pom),
                 DeploymentPath := v,
                 IsGlobalModule := (v \<noteq> '''')\<rparr>))"
  using assms
  by (simp add: detectModule_def parsePomXML_def GetModuleDeploymentPath_def Let_def
      split: option.splits)

lemma disk_found:
  "findPomXML (disk dir) [''repo'', ''app1'', dir, ''src''] = Inr [''repo'', ''app1'', dir, ''pom.xml'']"
  by (simp add: findPomXML_def disk_def filepath_Join_def filepath_Dir_def)

lemma detectModule_js_inherited:
  assumes "pom_project jpom = Some pr" and "pom_artifactId pr = Some a" and "a \<noteq> ''''"
    and "modules pc = Some entries" and "entries a = None" and "a \<in> set object_prototype_names"
  shows "case detectModule_js pomFile jpom pc of
           Inl e \<Rightarrow> False
         | Inr m \<Rightarrow> isGlobalModule m = JBool True \<and> deploymentPath m = JMember a"
  using assms by (simp add: detectModule_js_def Let_def js_and_def js_or_def js_get_def)

text \<open>
  Claim C1, as amended. The Go classifier consults the project's module table under the
  module name: a name that the table does not have makes \<open>detectModule\<close> fail with the
  error that tells which entries to add to the \<^verbatim>\<open>modules\<close> section; an empty value gives
  \<open>IsGlobalModule = False\<close> and an empty \<open>DeploymentPath\<close>; a non-empty value gives
  \<open>IsGlobalModule = True\<close> and that value as \<open>DeploymentPath\<close>. The JavaScript classifier
  never fails on the table: a name that is not an entry of the table and is not the name
  of a member of \<^verbatim>\<open>Object.prototype\<close>, or a missing table, gives a falsy \<open>isGlobalModule\<close>
  (\<^verbatim>\<open>undefined\<close>) and an empty \<open>deploymentPath\<close>; an entry with an empty value gives a
  falsy \<open>isGlobalModule\<close> (the empty string) and an empty \<open>deploymentPath\<close>; an entry with
  a non-empty value gives \<open>isGlobalModule = true\<close> and that value.
\<close>

theorem module_map_classification:
  "(findPomXML fs cwd = Inr pomFile \<and> Unmarshal fs pomFile = Some pom
      \<and> name = filepath_Base (filepath_Dir pomFile) \<longrightarrow>
      (Modules (Config p) name = None \<longrightarrow>
         detectModule fs p cwd = Inl (Err UnconfiguredModuleError (unconfigured_message name (Name p)))
         \<and> strings_Contains (unconfigured_message name (Name p)) ''Please add it to the '')
      \<and> (Modules (Config p) name = Some '''' \<longrightarrow>
         (case detectModule fs p cwd of
            Inl e \<Rightarrow> False
          | Inr info \<Rightarrow> IsGlobalModule info = False \<and> DeploymentPath info = ''''))
      \<and> (Modules (Config p) name = Some v \<and> v \<noteq> '''' \<longrightarrow>
         (case detectModule fs p cwd of
            Inl e \<Rightarrow> False
          | Inr info \<Rightarrow> IsGlobalModule info = True \<and> DeploymentPath info = v)))
   \<and> (pom_project jpom = Some pr \<and> pom_artifactId pr = Some a \<and> a \<noteq> ''''
        \<and> entry = (case modules pc of None \<Rightarrow> None | Some entries \<Rightarrow> entries a) \<longrightarrow>
      (case detectModule_js pomFile jpom pc of
         Inl e \<Rightarrow> False
       | Inr m \<Rightarrow>
           (entry = None \<and> (modules pc = None \<or> a \<notin> set object_prototype_names) \<longrightarrow>
              isGlobalModule m = JUndefined \<and> deploymentPath m = JStr '''')
           \<and> (entry = Some '''' \<longrightarrow> isGlobalModule m = JStr '''' \<and> deploymentPath m = JStr '''')
           \<and> (entry \<noteq> None \<and> entry \<noteq> Some '''' \<longrightarrow>
                isGlobalModule m = JBool True \<and> deploymentPath m = JStr (the entry))))"
proof -
  have go: "findPomXML fs cwd = Inr pomFile \<and> Unmarshal fs pomFile = Some pom
      \<and> name = filepath_Base (filepath_Dir pomFile) \<longrightarrow>
      (Modules (Config p) name = None \<longrightarrow>
         detectModule fs p cwd = Inl (Err UnconfiguredModuleError (unconfigured_message name (Name p)))
         \<and> strings_Contains (unconfigured_message name (Name p)) ''Please add it to the '')
      \<and> (Modules (Config p) name = Some '''' \<longrightarrow>
         (case detectModule fs p cwd of
            Inl e \<Rightarrow> False
          | Inr info \<Rightarrow> IsGlobalModule info = False \<and> DeploymentPath info = ''''))
      \<and> (Modules (Config p) name = Some v \<and> v \<noteq> '''' \<longrightarrow>
         (case detectModule fs p cwd of
            Inl e \<Rightarrow> False
          | Inr info \<Rightarrow> IsGlobalModule info = True \<and> DeploymentPath info = v))"
    by (auto simp: detectModule_found unconfigured_message_hint)
  have js: "pom_project jpom = Some pr \<and> pom_artifactId pr = Some a \<and> a \<noteq> ''''
        \<and> entry = (case modules pc of None \<Rightarrow> None | Some entries \<Rightarrow> entries a) \<longrightarrow>
      (case detectModule_js pomFile jpom pc of
         Inl e \<Rightarrow> False
       | Inr m \<Rightarrow>
           (entry = None \<and> (modules pc = None \<or> a \<notin> set object_prototype_names) \<longrightarrow>
              isGlobalModule m = JUndefined \<and> deploymentPath m = JStr '''')
           \<and> (entry = Some '''' \<longrightarrow> isGlobalModule m = JStr '''' \<and> deploymentPath m = JStr '''')
           \<and> (entry \<noteq> None \<and> entry \<noteq> Some '''' \<longrightarrow>
                isGlobalModule m = JBool True \<and> deploymentPath m = JStr (the entry)))"
    by (auto simp: detectModule_js_def Let_def js_and_def js_or_def js_get_def
        split: option.splits)
  from go js show ?thesis by blast
qed

theorem module_map_classification_witness:
  "detectModule (disk ''web'') app1_info [''repo'', ''app1'', ''web'', ''src''] =
     Inl (Err UnconfiguredModuleError (unconfigured_message ''web'' ''app1''))
   \<and> (case detectModule (disk ''core'') app1_info [''repo'', ''app1'', ''core'', ''src''] of
         Inl e \<Rightarrow> False
       | Inr info \<Rightarrow> IsGlobalModule info = False \<and> DeploymentPath info = '''')
   \<and> (case detectModule (disk ''auth'') app1_info [''repo'', ''app1'', ''auth'', ''src''] of
         Inl e \<Rightarrow> False
       | Inr info \<Rightarrow> IsGlobalModule info = True \<and> DeploymentPath info = ''modules/org/auth/main'')
   \<and> ''web'' \<notin> set object_prototype_names
   \<and> (case detectModule_js [''repo'', ''app1'', ''web'', ''pom.xml''] (js_pom ''web'') sample_pc of
         Inl e \<Rightarrow> False
       | Inr m \<Rightarrow> isGlobalModule m = JUndefined \<and> deploymentPath m = JStr '''')
   \<and> (case detectModule_js [''repo'', ''app1'', ''core'', ''pom.xml''] (js_pom ''core'') sample_pc of
         Inl e \<Rightarrow> False
       | Inr m \<Rightarrow> isGlobalModule m = JStr '''' \<and> deploymentPath m = JStr '''')
   \<and> (case detectModule_js [''repo'', ''app1'', ''auth'', ''pom.xml''] (js_pom ''auth'') sample_pc of
         Inl e \<Rightarrow> False
       | Inr m \<Rightarrow> isGlobalModule m = JBool True
                 \<and> deploymentPath m = JStr ''modules/org/auth/main'')"
proof -
  have pom: "Unmarshal (disk dir) [''repo'', ''app1'', dir, ''pom.xml'']
               = Some \<lparr>ArtifactId = ''core-api'', PomPackaging = ''''\<rparr>" for dir
    by (simp add: disk_def)
  have base: "filepath_Base (filepath_Dir [''repo'', ''app1'', dir, ''pom.xml'']) = dir" for dir
    by (simp add: filepath_Base_def filepath_Dir_def)
  have cfg: "Config app1_info = app1" "Name app1_info = ''app1''"
    by (simp_all add: app1_info_def)
  have mods: "Modules app1 ''web'' = None" "Modules app1 ''core'' = Some ''''"
    "Modules app1 ''auth'' = Some ''modules/org/auth/main''"
    by (simp_all add: app1_def)
  have jmods: "modules sample_pc = Some [''core'' \<mapsto> '''', ''auth'' \<mapsto> ''modules/org/auth/main'']"
    by (simp add: sample_pc_def)
  have jpom: "pom_project (js_pom a) = Some \<lparr>pom_artifactId = Some a, pom_packaging = None,
                                     pom_module = NoModules\<rparr>" for a
    by (simp add: js_pom_def)
  have nw: "''web'' \<notin> set object_prototype_names"
    by (simp add: object_prototype_names_def)
  have web: "detectModule (disk ''web'') app1_info [''repo'', ''app1'', ''web'', ''src''] =
     Inl (Err UnconfiguredModuleError (unconfigured_message ''web'' ''app1''))
   \<and> (case detectModule_js [''repo'', ''app1'', ''web'', ''pom.xml''] (js_pom ''web'') sample_pc of
         Inl e \<Rightarrow> False
       | Inr m \<Rightarrow> isGlobalModule m = JUndefined \<and> deploymentPath m = JStr '''')"
    using module_map_classification [where fs = "disk ''web''"
      and cwd = "[''repo'', ''app1'', ''web'', ''src'']"
      and pomFile = "[''repo'', ''app1'', ''web'', ''pom.xml'']" and name = "''web''"
      and p = app1_info and jpom = "js_pom ''web''" and pc = sample_pc and a = "''web''"
      and pom = "\<lparr>ArtifactId = ''core-api'', PomPackaging = ''''\<rparr>"
      and pr = "\<lparr>pom_artifactId = Some ''web'', pom_packaging = None, pom_module = NoModules\<rparr>"
      and v = "''x''" and entry = None]
    by (simp add: disk_found pom base cfg mods jmods jpom nw split: sum.splits)
  have core: "(case detectModule (disk ''core'') app1_info [''repo'', ''app1'', ''core'', ''src''] of
         Inl e \<Rightarrow> False
       | Inr info \<Rightarrow> IsGlobalModule info = False \<and> DeploymentPath info = '''')
   \<and> (case detectModule_js [''repo'', ''app1'', ''core'', ''pom.xml''] (js_pom ''core'') sample_pc of
         Inl e \<Rightarrow> False
       | Inr m \<Rightarrow> isGlobalModule m = JStr '''' \<and> deploymentPath m = JStr '''')"
    using module_map_classification [where fs = "disk ''core''"
      and cwd = "[''repo'', ''app1'', ''core'', ''src'']"
      and pomFile = "[''repo'', ''app1'', ''core'', ''pom.xml'']" and name = "''core''"
      and p = app1_info and jpom = "js_pom ''core''" and pc = sample_pc and a = "''core''"
      and pom = "\<lparr>ArtifactId = ''core-api'', PomPackaging = ''''\<rparr>"
      and pr = "\<lparr>pom_artifactId = Some ''core'', pom_packaging = None, pom_module = NoModules\<rparr>"
      and v = "''x''" and entry = "Some ''''"]
    by (simp add: disk_found pom base cfg mods jmods jpom split: sum.splits)
  have auth: "(case detectModule (disk ''auth'') app1_info [''repo'', ''app1'', ''auth'', ''src''] of
         Inl e \<Rightarrow> False
       | Inr info \<Rightarrow> IsGlobalModule info = True \<and> DeploymentPath info = ''modules/org/auth/main'')
   \<and> (case detectModule_js [''repo'', ''app1'', ''auth'', ''pom.xml''] (js_pom ''auth'') sample_pc of
         Inl e \<Rightarrow> False
       | Inr m \<Rightarrow> isGlobalModule m = JBool True
                 \<and> deploymentPath m = JStr ''modules/org/auth/main'')"
    using module_map_classification [where fs = "disk ''auth''"
      and cwd = "[''repo'', ''app1'', ''auth'', ''src'']"
      and pomFile = "[''repo'', ''app1'', ''auth'', ''pom.xml'']" and name = "''auth''"
      and p = app1_info and jpom = "js_pom ''auth''" and pc = sample_pc and a = "''auth''"
      and pom = "\<lparr>ArtifactId = ''core-api'', PomPackaging = ''''\<rparr>"
      and v = "''modules/org/auth/main''"
      and pr = "\<lparr>pom_artifactId = Some ''auth'', pom_packaging = None, pom_module = NoModules\<rparr>"
      and entry = "Some ''modules/org/auth/main''"]
    by (simp add: disk_found pom base cfg mods jmods jpom split: sum.splits)
  from web core auth nw show ?thesis by blast
qed

text \<open>
  The claim as stated fails on the JavaScript classifier: the module \<^verbatim>\<open>web\<close> is not in
  the table, and \<open>detectModule_js\<close> returns a classification.
\<close>

theorem absent_module_js_counterexample:
  "the (modules sample_pc) ''web'' = None
   \<and> detectModule_js [''repo'', ''app1'', ''web'', ''pom.xml''] (js_pom ''web'') sample_pc =
       Inr \<lparr>artifactId = ''web'', packaging = ''jar'', path = [''repo'', ''app1'', ''web''],
            relativePath = ''web'', isGlobalModule = JUndefined, deploymentPath = JStr '''',
            isMultiModule = False, subModules = []\<rparr>"
  by (simp add: sample_pc_def js_pom_def detectModule_js_def path_dirname_def path_relative_def
      path_resolve_def js_and_def js_or_def js_get_def object_prototype_names_def)

text \<open>
  A name that the table does not have but every object inherits is looked up in
  \<^verbatim>\<open>Object.prototype\<close>: the module \<^verbatim>\<open>constructor\<close> is classified as global, with that
  member in the place of the deployment path.
\<close>

lemma detectModule_js_constructor:
  "detectModule_js [''repo'', ''app1'', ''constructor'', ''pom.xml''] (js_pom ''constructor'')
     sample_pc =
       Inr \<lparr>artifactId = ''constructor'', packaging = ''jar'',
            path = [''repo'', ''app1'', ''constructor''], relativePath = ''constructor'',
            isGlobalModule = JBool True, deploymentPath = JMember ''constructor'',
            isMultiModule = False, subModules = []\<rparr>"
  by (simp add: sample_pc_def js_pom_def detectModule_js_def path_dirname_def path_relative_def
      path_resolve_def js_and_def js_or_def js_get_def object_prototype_names_def)

section \<open>Module name\<close>

lemma detectModule_ModuleName:
  assumes "findPomXML fs cwd = Inr pomFile" and "detectModule fs p cwd = Inr info"
  shows "ModuleName info = filepath_Base (filepath_Dir pomFile)"
  using assms
  by (auto simp: detectModule_def Let_def GetModuleDeploymentPath_def
      split: sum.splits option.splits if_splits)

lemma detectModule_disk_core:
  "detectModule (disk ''core'') app1_info [''repo'', ''app1'', ''core'', ''src''] =
     Inr \<lparr>Name = ''app1'', Config = app1, ModuleName = ''core'',
          ModulePath = [''repo'', ''app1'', ''core''], RepoRoot = [''repo'', ''app1'', ''core''],
          Packaging = ''jar'', DeploymentPath = '''', IsGlobalModule = False\<rparr>"
proof -
  have u: "Unmarshal (disk ''core'') [''repo'', ''app1'', ''core'', ''pom.xml'']
             = Some \<lparr>ArtifactId = ''core-api'', PomPackaging = ''''\<rparr>"
    by (simp add: disk_def)
  have h: "\<not> hasParentPom (disk ''core'') [''repo'', ''app1'']"
    by (simp add: hasParentPom_def disk_def filepath_Join_def)
  show ?thesis
    using h by (simp add: detectModule_found [OF disk_found u] app1_info_def app1_def
        filepath_Base_def filepath_Dir_def)
qed

text \<open>
  Claim C8, as amended. The Go classifier sets the module name to the name of the
  directory that contains the descriptor, in every case and whatever artifact identifier
  the descriptor declares. The JavaScript classifier takes the declared artifact
  identifier as the module's identity, and fails when the descriptor declares none (or an
  empty one); it never falls back to the directory name.
\<close>

theorem module_name_policies:
  "(findPomXML fs cwd = Inr pomFile \<and> detectModule fs p cwd = Inr info
      \<longrightarrow> ModuleName info = filepath_Base (filepath_Dir pomFile))
   \<and> (str_truthy (declared_artifactId jpom) \<longrightarrow>
        (case detectModule_js pomFile' jpom pc of
           Inl e \<Rightarrow> False
         | Inr m \<Rightarrow> artifactId m = the (declared_artifactId jpom)))
   \<and> (\<not> str_truthy (declared_artifactId jpom) \<longrightarrow>
        detectModule_js pomFile' jpom pc = Inl (Err ParseError ''artifactId not found in pom.xml''))"
  by (auto simp: detectModule_ModuleName detectModule_js_def declared_artifactId_def Let_def)

theorem module_name_policies_witness:
  "findPomXML (disk ''core'') [''repo'', ''app1'', ''core'', ''src'']
     = Inr [''repo'', ''app1'', ''core'', ''pom.xml'']
   \<and> ModuleName \<lparr>Name = ''app1'', Config = app1, ModuleName = ''core'',
          ModulePath = [''repo'', ''app1'', ''core''], RepoRoot = [''repo'', ''app1'', ''core''],
          Packaging = ''jar'', DeploymentPath = '''', IsGlobalModule = False\<rparr>
       = filepath_Base (filepath_Dir [''repo'', ''app1'', ''core'', ''pom.xml''])
   \<and> str_truthy (declared_artifactId (js_pom ''core-api''))
   \<and> (case detectModule_js [''repo'', ''app1'', ''core'', ''pom.xml''] (js_pom ''core-api'') sample_pc of
         Inl e \<Rightarrow> False
       | Inr m \<Rightarrow> artifactId m = ''core-api'')
   \<and> \<not> str_truthy (declared_artifactId \<lparr>pom_project = None\<rparr>)
   \<and> detectModule_js [''repo'', ''app1'', ''core'', ''pom.xml''] \<lparr>pom_project = None\<rparr> sample_pc
       = Inl (Err ParseError ''artifactId not found in pom.xml'')"
proof -
  have a: "str_truthy (declared_artifactId (js_pom ''core-api''))"
    "the (declared_artifactId (js_pom ''core-api'')) = ''core-api''"
    "\<not> str_truthy (declared_artifactId \<lparr>pom_project = None\<rparr>)"
    by (simp_all add: declared_artifactId_def js_pom_def)
  note inst = module_name_policies [where fs = "disk ''core''"
        and cwd = "[''repo'', ''app1'', ''core'', ''src'']"
        and pomFile = "[''repo'', ''app1'', ''core'', ''pom.xml'']" and p = app1_info
        and info = "\<lparr>Name = ''app1'', Config = app1, ModuleName = ''core'',
          ModulePath = [''repo'', ''app1'', ''core''], RepoRoot = [''repo'', ''app1'', ''core''],
          Packaging = ''jar'', DeploymentPath = '''', IsGlobalModule = False\<rparr>"
        and pc = sample_pc and pomFile' = "[''repo'', ''app1'', ''core'', ''pom.xml'']"]
  have go: "ModuleName \<lparr>Name = ''app1'', Config = app1, ModuleName = ''core'',
          ModulePath = [''repo'', ''app1'', ''core''], RepoRoot = [''repo'', ''app1'', ''core''],
          Packaging = ''jar'', DeploymentPath = '''', IsGlobalModule = False\<rparr>
       = filepath_Base (filepath_Dir [''repo'', ''app1'', ''core'', ''pom.xml''])"
    using inst [of "js_pom ''core-api''"] by (simp add: disk_found detectModule_disk_core)
  have js1: "case detectModule_js [''repo'', ''app1'', ''core'', ''pom.xml''] (js_pom ''core-api'') sample_pc of
         Inl e \<Rightarrow> False
       | Inr m \<Rightarrow> artifactId m = ''core-api''"
    using inst [of "js_pom ''core-api''"] a by (auto split: sum.splits)
  have js2: "detectModule_js [''repo'', ''app1'', ''core'', ''pom.xml''] \<lparr>pom_project = None\<rparr> sample_pc
       = Inl (Err ParseError ''artifactId not found in pom.xml'')"
    using inst [of "\<lparr>pom_project = None\<rparr>"] a by simp
  from go js1 js2 a show ?thesis
    by (simp add: disk_found)
qed

text \<open>
  The claim as stated fails on both implementations: the Go classifier names the module
  \<^verbatim>\<open>core\<close>, after its directory, although the descriptor declares the artifact
  identifier \<^verbatim>\<open>core-api\<close>; the JavaScript classifier fails on a descriptor without an
  identifier instead of taking the directory name.
\<close>

theorem module_name_counterexample:
  "Unmarshal (disk ''core'') [''repo'', ''app1'', ''core'', ''pom.xml'']
     = Some \<lparr>ArtifactId = ''core-api'', PomPackaging = ''''\<rparr>
   \<and> detectModule (disk ''core'') app1_info [''repo'', ''app1'', ''core'', ''src''] =
     Inr \<lparr>Name = ''app1'', Config = app1, ModuleName = ''core'',
          ModulePath = [''repo'', ''app1'', ''core''], RepoRoot = [''repo'', ''app1'', ''core''],
          Packaging = ''jar'', DeploymentPath = '''', IsGlobalModule = False\<rparr>
   \<and> detectModule_js [''repo'', ''app1'', ''core'', ''pom.xml''] \<lparr>pom_project = None\<rparr> sample_pc
       = Inl (Err ParseError ''artifactId not found in pom.xml'')"
  by (simp add: detectModule_disk_core) (simp add: disk_def detectModule_js_def)

section \<open>Profiles\<close>

lemma Build_kind:
  "isValidProfile b profile \<Longrightarrow> fst (Build os b profile) = Some e \<Longrightarrow> kind_of e = BuildExecutionError"
  by (auto simp: Build_def Let_def split: option.splits if_splits)

text \<open>
  Claim C4, as amended. Go: when the requested profile is non-empty, the project's
  \<open>AvailableProfiles\<close> is non-empty and the profile is not in it, \<open>Build\<close> fails at once
  with the invalid-profile error, whose message names the profile and the project (it
  does not list the available profiles), and nothing is executed; when the profile is in
  \<open>AvailableProfiles\<close> it is valid and \<open>Build\<close> raises no invalid-profile error.
  JavaScript: when the requested profile is non-empty, is not \<^verbatim>\<open>none\<close>,
  \<open>available_profiles\<close> is non-empty and the profile is not in it, \<open>getProfiles\<close> fails
  with the invalid-profile error, whose message lists the available profiles; when the
  profile is in \<open>available_profiles\<close>, \<open>getProfiles\<close> succeeds.
\<close>

theorem profile_validation:
  "(profile \<noteq> '''' \<and> AvailableProfiles (Config (projectInfo b)) \<noteq> []
      \<and> profile \<notin> set (AvailableProfiles (Config (projectInfo b)))
      \<longrightarrow> Build os b profile =
            (Some (Err InvalidProfileError
                     (''invalid profile '' @ [CHR 0x27] @ profile @ [CHR 0x27]
                      @ '' for project '' @ Name (projectInfo b))), []))
   \<and> (profile \<in> set (AvailableProfiles (Config (projectInfo b)))
      \<longrightarrow> isValidProfile b profile
          \<and> (case fst (Build os b profile) of
                None \<Rightarrow> True
              | Some e \<Rightarrow> kind_of e \<noteq> InvalidProfileError))
   \<and> (jp \<noteq> '''' \<and> jp \<noteq> ''none'' \<and> available_profiles pc = Some av \<and> av \<noteq> [] \<and> jp \<notin> set av
      \<longrightarrow> getProfiles (Some jp) pc =
            Inl (Err InvalidProfileError
                   (''Profile '' @ [CHR 0x27] @ jp @ [CHR 0x27]
                    @ '' not available. Available: '' @ join_with '', '' av)))
   \<and> (available_profiles pc = Some av \<and> jp \<in> set av \<longrightarrow> \<not> isl (getProfiles (Some jp) pc))"
proof -
  have go1: "profile \<noteq> '''' \<and> AvailableProfiles (Config (projectInfo b)) \<noteq> []
      \<and> profile \<notin> set (AvailableProfiles (Config (projectInfo b)))
      \<longrightarrow> Build os b profile =
            (Some (Err InvalidProfileError
                     (''invalid profile '' @ [CHR 0x27] @ profile @ [CHR 0x27]
                      @ '' for project '' @ Name (projectInfo b))), [])"
    by (simp add: Build_def isValidProfile_def)
  have go2: "profile \<in> set (AvailableProfiles (Config (projectInfo b)))
      \<longrightarrow> isValidProfile b profile
          \<and> (case fst (Build os b profile) of
                None \<Rightarrow> True
              | Some e \<Rightarrow> kind_of e \<noteq> InvalidProfileError)"
    using Build_kind [of b profile os]
    by (auto simp: isValidProfile_def split: option.splits)
  have js1: "jp \<noteq> '''' \<and> jp \<noteq> ''none'' \<and> available_profiles pc = Some av \<and> av \<noteq> [] \<and> jp \<notin> set av
      \<longrightarrow> getProfiles (Some jp) pc =
            Inl (Err InvalidProfileError
                   (''Profile '' @ [CHR 0x27] @ jp @ [CHR 0x27]
                    @ '' not available. Available: '' @ join_with '', '' av))"
    by (simp add: getProfiles_def)
  have js2: "available_profiles pc = Some av \<and> jp \<in> set av \<longrightarrow> \<not> isl (getProfiles (Some jp) pc)"
    by (auto simp: getProfiles_def Let_def split: option.splits)
  from go1 go2 js1 js2 show ?thesis by blast
qed

theorem profile_validation_witness:
  "Build yes_os (app1_builder ''jar'') ''DEV'' =
       (Some (Err InvalidProfileError (''invalid profile '' @ [CHR 0x27] @ ''DEV'' @ [CHR 0x27]
                                       @ '' for project app1'')), [])
   \<and> ''PROD'' \<in> set (AvailableProfiles (Config (projectInfo (app1_builder ''jar''))))
   \<and> isValidProfile (app1_builder ''jar'') ''PROD''
   \<and> getProfiles (Some ''DEV'') sample_pc =
       Inl (Err InvalidProfileError (''Profile '' @ [CHR 0x27] @ ''DEV'' @ [CHR 0x27]
                                     @ '' not available. Available: TEST, PROD''))
   \<and> ''PROD'' \<in> set [''TEST'', ''PROD'']
   \<and> \<not> isl (getProfiles (Some ''PROD'') sample_pc)"
proof -
  have av: "AvailableProfiles (Config (projectInfo (app1_builder ''jar''))) = [''TEST'', ''PROD'']"
    "Name (projectInfo (app1_builder ''jar'')) = ''app1''"
    "available_profiles sample_pc = Some [''TEST'', ''PROD'']"
    by (simp_all add: app1_builder_def app1_def sample_pc_def)
  note inst = profile_validation [where b = "app1_builder ''jar''" and os = yes_os
      and pc = sample_pc and av = "[''TEST'', ''PROD'']"]
  show ?thesis
    using inst [of "''DEV''" "''DEV''"] inst [of "''PROD''" "''PROD''"]
    by (simp add: av)
qed

text \<open>
  The claim as stated fails on both implementations: the JavaScript \<open>getProfiles\<close>
  accepts the profile \<^verbatim>\<open>none\<close> although the non-empty \<open>available_profiles\<close> does not have
  it, and the message of the Go error for the profile \<^verbatim>\<open>DEV\<close> names the project and not the
  available profiles.
\<close>

theorem profile_validation_counterexample:
  "''none'' \<noteq> '''' \<and> available_profiles sample_pc = Some [''TEST'', ''PROD'']
   \<and> ''none'' \<notin> set [''TEST'', ''PROD'']
   \<and> getProfiles (Some ''none'') sample_pc = Inr []
   \<and> AvailableProfiles (Config (projectInfo (app1_builder ''jar''))) = [''TEST'', ''PROD'']
   \<and> Build yes_os (app1_builder ''jar'') ''DEV'' =
       (Some (Err InvalidProfileError (''invalid profile '' @ [CHR 0x27] @ ''DEV'' @ [CHR 0x27]
                                       @ '' for project app1'')), [])"
  by (simp add: sample_pc_def getProfiles_def app1_builder_def app1_def Build_def isValidProfile_def)




section \<open>Build commands\<close>

lemma buildMavenCommand_shape:
  assumes "buildMavenCommand m jp sk pc = Inr args"
  shows "\<exists>flags. args = [''install''] @ flags
           @ (if isMultiModule m then [''-pl'', artifactId m, ''-am''] else [])"
  using assms by (auto simp: buildMavenCommand_def split: sum.splits)

lemma buildModule_one_command: "length (snd (buildModule os d jp sk)) \<le> 1"
  by (simp add: buildModule_def Let_def split: sum.splits option.splits)

text \<open>
  Claim C7, as amended. In the Go detector, for every classification that is not a
  multi-module build (\<open>RepoRoot = ModulePath\<close>), \<open>GetBuildCommand\<close> is \<^verbatim>\<open>mvn clean\<close> followed
  by the phase \<^verbatim>\<open>install\<close> when the packaging is \<^verbatim>\<open>jar\<close> and \<^verbatim>\<open>package\<close> for every other
  packaging, then the profile flags and the skip-tests flag. The Go builder does not read
  the \<open>RepoRoot\<close> of the classification: its guard is the repository root of the project
  configuration (\<^verbatim>\<open>Config.RepoRoot\<close>), and when that is empty or equal to \<open>ModulePath\<close> its
  \<open>getBuildCommand\<close> is the same command. In the JavaScript implementation the phase is
  \<^verbatim>\<open>install\<close> for every module, whatever its packaging.
\<close>

theorem single_module_phase:
  "(RepoRoot p = ModulePath p \<longrightarrow>
      GetBuildCommand p profile =
        [''mvn'', ''clean'', (if Packaging p = ''jar'' then ''install'' else ''package'')]
        @ GetProfileArgs (Config p) profile
        @ (if SkipTests (Config p) then [''-DskipTests''] else []))
   \<and> (ConfigRepoRoot (Config (projectInfo b)) = None
        \<or> ConfigRepoRoot (Config (projectInfo b)) = Some (ModulePath (projectInfo b)) \<longrightarrow>
      getBuildCommand b profile =
        [''mvn'', ''clean'', (if Packaging (projectInfo b) = ''jar'' then ''install'' else ''package'')]
        @ GetProfileArgs (Config (projectInfo b)) profile
        @ (if SkipTests (Config (projectInfo b)) then [''-DskipTests''] else []))
   \<and> (buildMavenCommand m jp sk pc = Inr args \<longrightarrow> take 1 args = [''install''])"
proof -
  have js: "buildMavenCommand m jp sk pc = Inr args \<longrightarrow> take 1 args = [''install'']"
    using buildMavenCommand_shape [of m jp sk pc args] by auto
  show ?thesis
    using js by (auto simp: GetBuildCommand_def getBuildCommand_def Let_def)
qed

theorem single_module_phase_witness:
  "GetBuildCommand (projectInfo (app1_single ''jar'')) ''PROD''
     = [''mvn'', ''clean'', ''install'', ''-PPROD'']
   \<and> GetBuildCommand (projectInfo (app1_single ''war'')) ''PROD''
     = [''mvn'', ''clean'', ''package'', ''-PPROD'']
   \<and> getBuildCommand (app1_single ''jar'') ''PROD'' = [''mvn'', ''clean'', ''install'', ''-PPROD'']
   \<and> getBuildCommand (app1_single ''war'') ''PROD'' = [''mvn'', ''clean'', ''package'', ''-PPROD'']
   \<and> buildMavenCommand (js_module ''web'' ''war'' False) (Some ''TEST'') False sample_pc
       = Inr [''install'', ''-P'', ''TEST'']
   \<and> take 1 [''install'', ''-P'', ''TEST''] = [''install'']"
proof -
  have f: "RepoRoot (projectInfo (app1_single pk)) = ModulePath (projectInfo (app1_single pk))"
    "ConfigRepoRoot (Config (projectInfo (app1_single pk))) = None"
    "Packaging (projectInfo (app1_single pk)) = pk"
    "SkipTests (Config (projectInfo (app1_single pk))) = False"
    "GetProfileArgs (Config (projectInfo (app1_single pk))) ''PROD'' = [''-PPROD'']" for pk
    by (simp_all add: app1_single_def GetProfileArgs_def app1_def)
  have js: "buildMavenCommand (js_module ''web'' ''war'' False) (Some ''TEST'') False sample_pc
       = Inr [''install'', ''-P'', ''TEST'']"
    by (simp add: js_module_def buildMavenCommand_def getProfiles_def sample_pc_def)
  show ?thesis
    using single_module_phase [where p = "projectInfo (app1_single ''jar'')"
        and b = "app1_single ''jar''" and profile = "''PROD''"
        and m = "js_module ''web'' ''war'' False" and jp = "Some ''TEST''"
        and sk = False and pc = sample_pc and args = "[''install'', ''-P'', ''TEST'']"]
      single_module_phase [where p = "projectInfo (app1_single ''war'')"
        and b = "app1_single ''war''" and profile = "''PROD''"
        and m = "js_module ''web'' ''war'' False" and jp = "Some ''TEST''"
        and sk = False and pc = sample_pc and args = "[''install'', ''-P'', ''TEST'']"]
      js
    by (simp add: f)
qed

text \<open>
  The claim as stated fails on the JavaScript implementation and on the Go builder: for
  the single module \<^verbatim>\<open>web\<close> with the packaging \<^verbatim>\<open>war\<close> the JavaScript phase is \<^verbatim>\<open>install\<close>;
  and for a \<^verbatim>\<open>jar\<close> classification that is not a multi-module build
  (\<open>RepoRoot = ModulePath\<close>) in a project whose configuration has the repository root
  \<^verbatim>\<open>/repo\<close>, the Go builder gives the phase \<^verbatim>\<open>package\<close> with a module selector.
\<close>

theorem single_module_phase_counterexample:
  "isMultiModule (js_module ''web'' ''war'' False) = False
   \<and> packaging (js_module ''web'' ''war'' False) = ''war''
   \<and> buildMavenCommand (js_module ''web'' ''war'' False) (Some ''TEST'') False sample_pc
       = Inr [''install'', ''-P'', ''TEST'']
   \<and> RepoRoot (projectInfo (builder_of (Some [''repo'']) [''repo'', ''app1'', ''core''] ''jar''))
       = ModulePath (projectInfo (builder_of (Some [''repo'']) [''repo'', ''app1'', ''core''] ''jar''))
   \<and> Packaging (projectInfo (builder_of (Some [''repo'']) [''repo'', ''app1'', ''core''] ''jar''))
       = ''jar''
   \<and> getBuildCommand (builder_of (Some [''repo'']) [''repo'', ''app1'', ''core''] ''jar'') ''PROD''
       = [''mvn'', ''clean'', ''package'', ''-pl'', ''app1/core'', ''-am'', ''-PPROD'']"
  by (simp add: js_module_def buildMavenCommand_def getProfiles_def sample_pc_def
      builder_of_def getBuildCommand_def relPath_def filepath_Rel_def GetProfileArgs_def app1_def)

text \<open>
  Claim C3, as amended. In the Go detector, for every classification that is a
  multi-module build (\<open>RepoRoot \<noteq> ModulePath\<close>), \<open>GetBuildCommand\<close> has the phase
  \<^verbatim>\<open>package\<close>, the module selector \<^verbatim>\<open>-pl\<close> with the path of \<open>ModulePath\<close> relative to
  \<open>RepoRoot\<close>, and \<^verbatim>\<open>-am\<close>. The Go builder does not read the \<open>RepoRoot\<close> of the
  classification: its guard is the repository root of the project configuration
  (\<^verbatim>\<open>Config.RepoRoot\<close>). When that is set and differs from \<open>ModulePath\<close>, its build command
  has the phase \<^verbatim>\<open>package\<close>, the module selector relative to that root, and \<^verbatim>\<open>-am\<close>; and
  when the packaging is \<^verbatim>\<open>jar\<close> there is a second command, different from the first,
  \<^verbatim>\<open>mvn install\<close> with the same module selector and \<^verbatim>\<open>-DskipTests\<close>, which \<open>Build\<close>
  executes exactly when the profile is valid, the user has confirmed and the first
  command has succeeded. In the JavaScript implementation the command of a module whose
  descriptor declares sub-modules has the phase \<^verbatim>\<open>install\<close> and ends with \<^verbatim>\<open>-pl\<close>, the
  artifact identifier and \<^verbatim>\<open>-am\<close>; \<open>buildModule\<close> executes at most that one command.
\<close>

theorem multi_module_commands:
  "(ConfigRepoRoot (Config (projectInfo b)) = Some root \<and> root \<noteq> ModulePath (projectInfo b) \<longrightarrow>
      getBuildCommand b profile =
        [''mvn'', ''clean'', ''package'', ''-pl'', filepath_Rel root (ModulePath (projectInfo b)), ''-am'']
        @ GetProfileArgs (Config (projectInfo b)) profile
        @ (if SkipTests (Config (projectInfo b)) then [''-DskipTests''] else [])
      \<and> (Packaging (projectInfo b) = ''jar'' \<longrightarrow>
           getInstallCommand b =
             [''mvn'', ''install'', ''-pl'', filepath_Rel root (ModulePath (projectInfo b)), ''-DskipTests'']
           \<and> getInstallCommand b \<noteq> getBuildCommand b profile
           \<and> snd (Build os b profile) =
               (if (profile = '''' \<or> isValidProfile b profile) \<and> confirm os
                then (if executeBuild os b (getBuildCommand b profile) = None
                      then [getBuildCommand b profile, getInstallCommand b]
                      else [getBuildCommand b profile])
                else [])))
   \<and> (RepoRoot p \<noteq> ModulePath p \<longrightarrow>
      GetBuildCommand p profile =
        [''mvn'', ''clean'', ''package'', ''-pl'', filepath_Rel (RepoRoot p) (ModulePath p), ''-am'']
        @ GetProfileArgs (Config p) profile
        @ (if SkipTests (Config p) then [''-DskipTests''] else []))
   \<and> (isMultiModule m \<and> buildMavenCommand m jp sk pc = Inr args \<longrightarrow>
        take 1 args = [''install'']
        \<and> drop (length args - 3) args = [''-pl'', artifactId m, ''-am''])
   \<and> length (snd (buildModule jos d jp sk)) \<le> 1"
proof -
  have go: "ConfigRepoRoot (Config (projectInfo b)) = Some root \<and> root \<noteq> ModulePath (projectInfo b) \<longrightarrow>
      getBuildCommand b profile =
        [''mvn'', ''clean'', ''package'', ''-pl'', filepath_Rel root (ModulePath (projectInfo b)), ''-am'']
        @ GetProfileArgs (Config (projectInfo b)) profile
        @ (if SkipTests (Config (projectInfo b)) then [''-DskipTests''] else [])
      \<and> (Packaging (projectInfo b) = ''jar'' \<longrightarrow>
           getInstallCommand b =
             [''mvn'', ''install'', ''-pl'', filepath_Rel root (ModulePath (projectInfo b)), ''-DskipTests'']
           \<and> getInstallCommand b \<noteq> getBuildCommand b profile
           \<and> snd (Build os b profile) =
               (if (profile = '''' \<or> isValidProfile b profile) \<and> confirm os
                then (if executeBuild os b (getBuildCommand b profile) = None
                      then [getBuildCommand b profile, getInstallCommand b]
                      else [getBuildCommand b profile])
                else []))"
    by (auto simp: getBuildCommand_def getInstallCommand_def relPath_def Build_def Let_def
        split: option.splits)
  have det: "RepoRoot p \<noteq> ModulePath p \<longrightarrow>
      GetBuildCommand p profile =
        [''mvn'', ''clean'', ''package'', ''-pl'', filepath_Rel (RepoRoot p) (ModulePath p), ''-am'']
        @ GetProfileArgs (Config p) profile
        @ (if SkipTests (Config p) then [''-DskipTests''] else [])"
    by (simp add: GetBuildCommand_def Let_def)
  have js: "isMultiModule m \<and> buildMavenCommand m jp sk pc = Inr args \<longrightarrow>
        take 1 args = [''install'']
        \<and> drop (length args - 3) args = [''-pl'', artifactId m, ''-am'']"
    using buildMavenCommand_shape [of m jp sk pc args] by auto
  from go det js buildModule_one_command [of jos d jp sk] show ?thesis by blast
qed

theorem multi_module_commands_witness:
  "getBuildCommand (app1_builder ''jar'') ''''
     = [''mvn'', ''clean'', ''package'', ''-pl'', ''core'', ''-am'', ''-Pdev'', ''-Plocal'']
   \<and> getInstallCommand (app1_builder ''jar'') = [''mvn'', ''install'', ''-pl'', ''core'', ''-DskipTests'']
   \<and> snd (Build yes_os (app1_builder ''jar'') '''')
       = [[''mvn'', ''clean'', ''package'', ''-pl'', ''core'', ''-am'', ''-Pdev'', ''-Plocal''],
          [''mvn'', ''install'', ''-pl'', ''core'', ''-DskipTests'']]
   \<and> GetBuildCommand (projectInfo (app1_builder ''jar'')) ''''
       = [''mvn'', ''clean'', ''package'', ''-pl'', ''core'', ''-am'', ''-Pdev'', ''-Plocal'']
   \<and> buildMavenCommand (js_module ''core-api'' ''jar'' True) (Some ''TEST'') False sample_pc
       = Inr [''install'', ''-P'', ''TEST'', ''-pl'', ''core-api'', ''-am'']
   \<and> drop 3 [''install'', ''-P'', ''TEST'', ''-pl'', ''core-api'', ''-am'']
       = [''-pl'', ''core-api'', ''-am'']"
proof -
  have f: "ConfigRepoRoot (Config (projectInfo (app1_builder ''jar''))) = Some [''repo'', ''app1'']"
    "ModulePath (projectInfo (app1_builder ''jar'')) = [''repo'', ''app1'', ''core'']"
    "RepoRoot (projectInfo (app1_builder ''jar'')) = [''repo'', ''app1'']"
    "Packaging (projectInfo (app1_builder ''jar'')) = ''jar''"
    "SkipTests (Config (projectInfo (app1_builder ''jar''))) = False"
    "GetProfileArgs (Config (projectInfo (app1_builder ''jar''))) '''' = [''-Pdev'', ''-Plocal'']"
    by (simp_all add: app1_builder_def GetProfileArgs_def app1_def)
  have r: "filepath_Rel [''repo'', ''app1''] [''repo'', ''app1'', ''core''] = ''core''"
    by (simp add: filepath_Rel_def)
  have e: "executeBuild yes_os b c = None" "confirm yes_os" for b c
    by (simp_all add: executeBuild_def yes_os_def)
  have js: "buildMavenCommand (js_module ''core-api'' ''jar'' True) (Some ''TEST'') False sample_pc
       = Inr [''install'', ''-P'', ''TEST'', ''-pl'', ''core-api'', ''-am'']"
    "isMultiModule (js_module ''core-api'' ''jar'' True)"
    "artifactId (js_module ''core-api'' ''jar'' True) = ''core-api''"
    by (simp_all add: js_module_def buildMavenCommand_def getProfiles_def sample_pc_def)
  show ?thesis
    using multi_module_commands [where b = "app1_builder ''jar''" and root = "[''repo'', ''app1'']"
        and profile = "''''" and os = yes_os and p = "projectInfo (app1_builder ''jar'')"
        and m = "js_module ''core-api'' ''jar'' True" and jp = "Some ''TEST''" and sk = False
        and pc = sample_pc and args = "[''install'', ''-P'', ''TEST'', ''-pl'', ''core-api'', ''-am'']"
        and jos = yes_js and d = "js_detection (js_module ''core-api'' ''jar'' True)"]
    by (simp add: f r e js)
qed

text \<open>
  The claim as stated fails on the JavaScript implementation and on the Go builder. For
  the multi-module \<^verbatim>\<open>jar\<close> module \<^verbatim>\<open>core-api\<close> in the directory \<^verbatim>\<open>core\<close> the JavaScript
  phase is \<^verbatim>\<open>install\<close>, the module selector is the artifact identifier and not the
  relative path, and \<open>buildModule\<close> executes that single command. For a \<^verbatim>\<open>jar\<close>
  classification that is a multi-module build (\<open>RepoRoot \<noteq> ModulePath\<close>) in a project
  whose configuration has no repository root, the Go builder gives \<^verbatim>\<open>mvn clean install\<close>
  without a module selector, and \<open>Build\<close> executes that command only.
\<close>

theorem multi_module_commands_counterexample:
  "isMultiModule (js_module ''core-api'' ''jar'' True) = True
   \<and> relativePath (js_module ''core-api'' ''jar'' True) = ''core''
   \<and> buildMavenCommand (js_module ''core-api'' ''jar'' True) (Some ''TEST'') False sample_pc
       = Inr [''install'', ''-P'', ''TEST'', ''-pl'', ''core-api'', ''-am'']
   \<and> buildModule yes_js (js_detection (js_module ''core-api'' ''jar'' True)) (Some ''TEST'') False
       = (None, [[''mvn'', ''install'', ''-P'', ''TEST'', ''-pl'', ''core-api'', ''-am'']])
   \<and> RepoRoot (projectInfo (builder_of None [''repo'', ''app1''] ''jar''))
       \<noteq> ModulePath (projectInfo (builder_of None [''repo'', ''app1''] ''jar''))
   \<and> Packaging (projectInfo (builder_of None [''repo'', ''app1''] ''jar'')) = ''jar''
   \<and> getBuildCommand (builder_of None [''repo'', ''app1''] ''jar'') ''PROD''
       = [''mvn'', ''clean'', ''install'', ''-PPROD'']
   \<and> Build yes_os (builder_of None [''repo'', ''app1''] ''jar'') ''PROD''
       = (None, [[''mvn'', ''clean'', ''install'', ''-PPROD'']])"
proof -
  have js: "isMultiModule (js_module ''core-api'' ''jar'' True) = True
   \<and> relativePath (js_module ''core-api'' ''jar'' True) = ''core''
   \<and> buildMavenCommand (js_module ''core-api'' ''jar'' True) (Some ''TEST'') False sample_pc
       = Inr [''install'', ''-P'', ''TEST'', ''-pl'', ''core-api'', ''-am'']
   \<and> buildModule yes_js (js_detection (js_module ''core-api'' ''jar'' True)) (Some ''TEST'') False
       = (None, [[''mvn'', ''install'', ''-P'', ''TEST'', ''-pl'', ''core-api'', ''-am'']])"
    by (simp add: js_module_def buildMavenCommand_def getProfiles_def sample_pc_def
        buildModule_def js_detection_def yes_js_def effectiveProfile_def)
  have c: "getBuildCommand (builder_of None [''repo'', ''app1''] ''jar'') ''PROD''
       = [''mvn'', ''clean'', ''install'', ''-PPROD'']"
    by (simp add: builder_of_def getBuildCommand_def GetProfileArgs_def app1_def)
  have go: "RepoRoot (projectInfo (builder_of None [''repo'', ''app1''] ''jar''))
       \<noteq> ModulePath (projectInfo (builder_of None [''repo'', ''app1''] ''jar''))
   \<and> Packaging (projectInfo (builder_of None [''repo'', ''app1''] ''jar'')) = ''jar''
   \<and> Build yes_os (builder_of None [''repo'', ''app1''] ''jar'') ''PROD''
       = (None, [[''mvn'', ''clean'', ''install'', ''-PPROD'']])"
    by (simp add: Build_def c isValidProfile_def executeBuild_def yes_os_def)
      (simp add: builder_of_def app1_def)
  from js c go show ?thesis by blast
qed

section \<open>Path resolution\<close>

text \<open>
  The test of the Go implementation is the one on segments, up to one case: it accepts the
  base path itself, accepts a directory below the base path unless the first segment
  below it begins with two dots, and accepts nothing else.
\<close>

lemma rel_segments_not_prefix:
  "\<not> prefix base cwd \<Longrightarrow> \<exists>rest. rel_segments base cwd = ''..'' # rest"
  by (induction base cwd rule: rel_segments.induct) (auto simp: neq_Nil_conv)

lemma join_with_Cons_prefix: "prefix x (join_with sep (x # xs))"
  by (cases xs) auto

lemma withinBasePath_imp_prefix:
  assumes "withinBasePath base cwd"
  shows "prefix base cwd"
proof (rule ccontr)
  assume "\<not> prefix base cwd"
  then obtain rest where r: "rel_segments base cwd = ''..'' # rest"
    using rel_segments_not_prefix by blast
  have "prefix ''..'' (join_with ''/'' (''..'' # rest))"
    by (rule join_with_Cons_prefix)
  with r have "strings_HasPrefix (filepath_Rel base cwd) ''..''"
    by (simp add: filepath_Rel_def strings_HasPrefix_def)
  with assms show False
    by (simp add: withinBasePath_def Let_def)
qed

lemma rel_segments_append: "rel_segments base (base @ rest) = rest"
proof (induction base)
  case Nil
  show ?case by (cases rest) simp_all
next
  case (Cons b base)
  then show ?case by simp
qed

lemma prefix_dotdot_join_with:
  assumes "x \<noteq> []"
  shows "prefix ''..'' (join_with ''/'' (x # xs)) \<longleftrightarrow> prefix ''..'' x"
proof (cases xs)
  case Nil
  then show ?thesis by simp
next
  case (Cons y ys)
  obtain c cs where x: "x = c # cs"
    using assms by (cases x) auto
  show ?thesis
    by (cases cs) (auto simp: Cons x)
qed

lemma withinBasePath_descendant:
  assumes "x \<noteq> []" and "hd x \<noteq> CHR ''/''"
  shows "withinBasePath base (base @ x # xs) \<longleftrightarrow> \<not> prefix ''..'' x"
proof -
  obtain c cs where x: "x = c # cs"
    using assms(1) by (cases x) auto
  have "\<not> prefix ''/'' (join_with ''/'' (x # xs))"
    using assms(2) by (cases xs) (auto simp: x)
  then show ?thesis
    using prefix_dotdot_join_with [OF assms(1), of xs]
    by (simp add: withinBasePath_def filepath_Rel_def rel_segments_append strings_HasPrefix_def
        filepath_IsAbs_def)
qed

lemma withinBasePath_self: "withinBasePath base base"
  using rel_segments_append [of base "[]"]
  by (simp add: withinBasePath_def filepath_Rel_def strings_HasPrefix_def filepath_IsAbs_def)

lemma withinBasePath_dotdot_segment: "\<not> withinBasePath [''foo''] [''foo'', ''..cache'']"
  by (simp add: withinBasePath_def filepath_Rel_def strings_HasPrefix_def)

text \<open>
  Claim C6 (the code departs from it). The directory \<^verbatim>\<open>/foo-bar\<close> is neither the base path
  \<^verbatim>\<open>/foo\<close> nor below it, and its text merely extends the text of the base path. The
  JavaScript \<open>detectProject\<close> tests \<^verbatim>\<open>currentPath.startsWith(base_path)\<close>, matches the
  project and returns a detection for it. The Go \<open>DetectProject\<close>, which compares through
  \<^verbatim>\<open>filepath.Rel\<close>, produces no match on the same input.
\<close>

theorem startsWith_false_match:
  "\<not> prefix [''foo''] [''foo-bar'']
   \<and> startsWith (render [''foo-bar'']) (base_path foo_pc)
   \<and> matchedProject (render [''foo-bar'']) (projects foo_config_js) = Some (''foo'', foo_pc)
   \<and> detectProject foobar_js foo_config_js [''foo-bar''] =
       Inr \<lparr>project = ''foo'', projectConfig = foo_pc, pomPath = [''foo-bar'', ''pom.xml''],
            module_of = \<lparr>artifactId = ''other'', packaging = ''jar'', path = [''foo-bar''],
                         relativePath = ''../foo-bar'', isGlobalModule = JUndefined,
                         deploymentPath = JStr '''', isMultiModule = False, subModules = []\<rparr>\<rparr>
   \<and> withinBasePath [''foo''] [''foo-bar''] = False
   \<and> DetectProject foobar_go [''foo-bar''] foo_config =
       Inl (Err NotInProjectError ''current directory is not part of any configured project'')"
proof -
  have m: "matchedProject (render [''foo-bar'']) (projects foo_config_js) = Some (''foo'', foo_pc)"
    by (simp add: foo_config_js_def foo_pc_def render_def startsWith_def)
  have f: "findPomXml foobar_js [''foo-bar''] = Some [''foo-bar'', ''pom.xml'']"
    by (simp add: foobar_js_def path_join_def)
  have p: "parsePom foobar_js [''foo-bar'', ''pom.xml''] = Inr (js_pom ''other'')"
    by (simp add: parsePom_def foobar_js_def)
  have d: "detectModule_js [''foo-bar'', ''pom.xml''] (js_pom ''other'') foo_pc =
       Inr \<lparr>artifactId = ''other'', packaging = ''jar'', path = [''foo-bar''],
                         relativePath = ''../foo-bar'', isGlobalModule = JUndefined,
                         deploymentPath = JStr '''', isMultiModule = False, subModules = []\<rparr>"
    by (simp add: detectModule_js_def js_pom_def foo_pc_def path_dirname_def path_relative_def
        path_resolve_def js_and_def js_or_def js_get_def)
  have w: "withinBasePath [''foo''] [''foo-bar''] = False"
    by (simp add: withinBasePath_def filepath_Rel_def strings_HasPrefix_def)
  have g: "DetectProject foobar_go [''foo-bar''] foo_config =
       Inl (Err NotInProjectError ''current directory is not part of any configured project'')"
    by (simp add: DetectProject_def foo_config_def w)
  have s: "startsWith (render [''foo-bar'']) (base_path foo_pc)"
    by (simp add: foo_pc_def render_def startsWith_def)
  show ?thesis
    using s w g by (simp add: detectProject_def m f p d del: findPomXml.simps)
qed

section \<open>Descriptor location\<close>

text \<open>
  The Go locator does what the claim says. A descriptor \<open>n\<close> levels up, with none nearer,
  is returned, after the loop has moved to the parent \<open>n\<close> times; with no descriptor at
  any of the levels up to the root, which is \<open>length d\<close> levels up, it fails; and the
  loop moves to the parent at most \<open>length d\<close> times.
\<close>

lemma findPomXML_nearest:
  assumes "\<forall>m<n. \<not> Stat fs (filepath_Join ((filepath_Dir ^^ m) d) ''pom.xml'')"
    and "Stat fs (filepath_Join ((filepath_Dir ^^ n) d) ''pom.xml'')"
  shows "findPomXML fs d = Inr (filepath_Join ((filepath_Dir ^^ n) d) ''pom.xml'')"
proof -
  have "findPomXML_loop fs d = Some (filepath_Join ((filepath_Dir ^^ n) d) ''pom.xml'')"
    using assms
  proof (induction n arbitrary: d)
    case 0
    then show ?case by simp
  next
    case (Suc n)
    from Suc.prems(1) have no: "\<not> Stat fs (filepath_Join d ''pom.xml'')"
      by (metis funpow_0 zero_less_Suc)
    have up: "(filepath_Dir ^^ m) (filepath_Dir d) = (filepath_Dir ^^ Suc m) d" for m
      by (simp add: funpow_swap1)
    show ?case
    proof (cases "filepath_Dir d = d")
      case True
      then have "(filepath_Dir ^^ k) d = d" for k
        by (induction k) simp_all
      then have "(filepath_Dir ^^ Suc n) d = d" .
      with Suc.prems(2) no show ?thesis by metis
    next
      case False
      have "findPomXML_loop fs (filepath_Dir d)
              = Some (filepath_Join ((filepath_Dir ^^ n) (filepath_Dir d)) ''pom.xml'')"
      proof (rule Suc.IH)
        show "\<forall>m<n. \<not> Stat fs (filepath_Join ((filepath_Dir ^^ m) (filepath_Dir d)) ''pom.xml'')"
          using Suc.prems(1) up by (metis Suc_less_eq)
        show "Stat fs (filepath_Join ((filepath_Dir ^^ n) (filepath_Dir d)) ''pom.xml'')"
          using Suc.prems(2) up by metis
      qed
      with no False show ?thesis
        by (simp add: up Let_def del: funpow.simps)
    qed
  qed
  then show ?thesis by (simp add: findPomXML_def)
qed

lemma findPomXML_none:
  assumes "\<forall>m\<le>length d. \<not> Stat fs (filepath_Join ((filepath_Dir ^^ m) d) ''pom.xml'')"
  shows "findPomXML fs d =
           Inl (Err DescriptorNotFoundError
                  (''pom.xml not found in directory tree starting from '' @ render d))"
proof -
  have "findPomXML_loop fs e = None"
    if "\<forall>m\<le>length e. \<not> Stat fs (filepath_Join ((filepath_Dir ^^ m) e) ''pom.xml'')" for e
    using that
  proof (induction e rule: rev_induct)
    case Nil
    then show ?case by (simp add: filepath_Dir_def)
  next
    case (snoc x xs)
    have "\<not> Stat fs (filepath_Join (xs @ [x]) ''pom.xml'')"
      using snoc.prems by (metis funpow_0 le0)
    moreover have "findPomXML_loop fs xs = None"
    proof (rule snoc.IH, intro allI impI)
      fix m assume "m \<le> length xs"
      then have "Suc m \<le> length (xs @ [x])" by simp
      then have "\<not> Stat fs (filepath_Join ((filepath_Dir ^^ Suc m) (xs @ [x])) ''pom.xml'')"
        using snoc.prems by blast
      then show "\<not> Stat fs (filepath_Join ((filepath_Dir ^^ m) xs) ''pom.xml'')"
        by (simp add: funpow_swap1 filepath_Dir_def)
    qed
    ultimately show ?case
      by (simp add: filepath_Dir_def)
  qed
  with assms show ?thesis by (simp add: findPomXML_def)
qed

lemma findPomXML_loop_snoc:
  "findPomXML_loop fs (xs @ [x]) =
     (if Stat fs (filepath_Join (xs @ [x]) ''pom.xml'')
      then Some (filepath_Join (xs @ [x]) ''pom.xml'')
      else findPomXML_loop fs xs)"
  by (subst findPomXML_loop.simps) (simp add: filepath_Dir_def Let_def del: findPomXML_loop.simps)

lemma findPomXML_steps_snoc:
  "findPomXML_steps fs (xs @ [x]) =
     (if Stat fs (filepath_Join (xs @ [x]) ''pom.xml'') then 0
      else Suc (findPomXML_steps fs xs))"
  by (subst findPomXML_steps.simps) (simp add: filepath_Dir_def Let_def del: findPomXML_steps.simps)

lemma findPomXML_steps_bound: "findPomXML_steps fs d \<le> length d"
proof (induction d rule: rev_induct)
  case Nil
  show ?case
    by (subst findPomXML_steps.simps) (simp add: filepath_Dir_def Let_def del: findPomXML_steps.simps)
next
  case (snoc x xs)
  then show ?case
    by (simp add: findPomXML_steps_snoc del: findPomXML_steps.simps)
qed

lemma findPomXML_found_after_steps:
  assumes "findPomXML fs d = Inr f"
  shows "f = filepath_Join ((filepath_Dir ^^ findPomXML_steps fs d) d) ''pom.xml''"
proof -
  have "findPomXML_loop fs e = Some f \<Longrightarrow>
          f = filepath_Join ((filepath_Dir ^^ findPomXML_steps fs e) e) ''pom.xml''" for e
  proof (induction e rule: rev_induct)
    case Nil
    have "findPomXML_steps fs [] = 0"
      by (subst findPomXML_steps.simps)
        (simp add: filepath_Dir_def Let_def del: findPomXML_steps.simps)
    moreover have "findPomXML_loop fs [] =
        (if Stat fs (filepath_Join [] ''pom.xml'') then Some (filepath_Join [] ''pom.xml'') else None)"
      by (subst findPomXML_loop.simps)
        (simp add: filepath_Dir_def Let_def del: findPomXML_loop.simps)
    ultimately show ?case
      using Nil by (simp del: findPomXML_loop.simps findPomXML_steps.simps split: if_splits)
  next
    case (snoc x xs)
    show ?case
    proof (cases "Stat fs (filepath_Join (xs @ [x]) ''pom.xml'')")
      case True
      with snoc.prems show ?thesis
        by (simp add: findPomXML_loop_snoc findPomXML_steps_snoc
            del: findPomXML_loop.simps findPomXML_steps.simps)
    next
      case False
      with snoc.prems have "findPomXML_loop fs xs = Some f"
        by (simp add: findPomXML_loop_snoc del: findPomXML_loop.simps)
      then have "f = filepath_Join ((filepath_Dir ^^ findPomXML_steps fs xs) xs) ''pom.xml''"
        by (rule snoc.IH)
      moreover have "(filepath_Dir ^^ Suc n) (xs @ [x]) = (filepath_Dir ^^ n) xs" for n
      proof -
        have "filepath_Dir (xs @ [x]) = xs"
          by (simp add: filepath_Dir_def)
        then show ?thesis
          by (simp add: funpow_swap1)
      qed
      ultimately show ?thesis
        using False
        by (simp add: findPomXML_steps_snoc
            del: findPomXML_loop.simps findPomXML_steps.simps funpow.simps)
    qed
  qed
  moreover from assms have "findPomXML_loop fs d = Some f"
    by (simp add: findPomXML_def del: findPomXML_loop.simps split: option.splits)
  ultimately show ?thesis
    by blast
qed


lemma findPomXML_steps_nearest:
  assumes "\<forall>m<n. \<not> Stat fs (filepath_Join ((filepath_Dir ^^ m) d) ''pom.xml'')"
    and "Stat fs (filepath_Join ((filepath_Dir ^^ n) d) ''pom.xml'')"
    and "n \<le> length d"
  shows "findPomXML_steps fs d = n"
  using assms
proof (induction n arbitrary: d)
  case 0
  then show ?case
    by (subst findPomXML_steps.simps) (simp del: findPomXML_steps.simps)
next
  case (Suc n)
  from Suc.prems(3) obtain xs x where d: "d = xs @ [x]"
    by (cases d rule: rev_cases) auto
  from Suc.prems(1) have no: "\<not> Stat fs (filepath_Join d ''pom.xml'')"
    by (metis funpow_0 zero_less_Suc)
  have dir: "filepath_Dir d = xs"
    by (simp add: d filepath_Dir_def)
  have up: "(filepath_Dir ^^ Suc m) d = (filepath_Dir ^^ m) xs" for m
    using dir by (simp add: funpow_swap1)
  have "findPomXML_steps fs xs = n"
  proof (rule Suc.IH)
    show "\<forall>m<n. \<not> Stat fs (filepath_Join ((filepath_Dir ^^ m) xs) ''pom.xml'')"
      using Suc.prems(1) up by (metis Suc_less_eq)
    show "Stat fs (filepath_Join ((filepath_Dir ^^ n) xs) ''pom.xml'')"
      using Suc.prems(2) up by metis
    show "n \<le> length xs"
      using Suc.prems(3) by (simp add: d)
  qed
  with no show ?case
    by (simp add: d findPomXML_steps_snoc del: findPomXML_steps.simps)
qed

text \<open>
  Claim C9 (the code departs from it). With a descriptor in the root directory only, the
  JavaScript \<open>findPomXml\<close> returns \<^verbatim>\<open>null\<close> from \<^verbatim>\<open>/a\<close>, and from the root itself: its loop
  stops when it reaches the root, before looking there. The Go \<open>findPomXML\<close> returns
  \<^verbatim>\<open>/pom.xml\<close> on both inputs.
\<close>

theorem root_descriptor_missed:
  "existsSync root_pom_js (path_join [] ''pom.xml'')
   \<and> findPomXml root_pom_js [''a''] = None
   \<and> findPomXml root_pom_js [] = None
   \<and> Stat root_pom_go (filepath_Join [] ''pom.xml'')
   \<and> findPomXML root_pom_go [''a''] = Inr [''pom.xml'']
   \<and> findPomXML root_pom_go [] = Inr [''pom.xml'']"
  by (simp add: root_pom_js_def root_pom_go_def path_join_def path_dirname_def
      findPomXML_def filepath_Join_def filepath_Dir_def)

end
